theory Spec2Isabelle
  imports Complex_Main
begin

section \<open>The auto\_ml Predictor (predictor.py)\<close>

text \<open>
  A shallow embedding of the class \<^verbatim>\<open>Predictor\<close> of \<^verbatim>\<open>auto_ml/predictor.py\<close>.
  The instance is a record that every method takes and returns; an exception is a
  value of \<^verbatim>\<open>error\<close>. Library code that the class only calls (scikit-learn's pipeline
  and grid search, the module \<^verbatim>\<open>utils\<close>, the builtins \<^verbatim>\<open>int\<close> and \<^verbatim>\<open>float\<close>) is a
  field of the record \<^verbatim>\<open>env\<close>, so that every statement about the class holds for any
  behaviour of the library. Floating-point numbers are idealised: a finite float is
  a real number, rounding and overflow are not modelled; the infinities and NaN
  are values of their own.
\<close>

subsection \<open>Values and errors\<close>

datatype error =
    ValueError | TypeError | NameError | AttributeError | IndexError | KeyError
  | LibraryError string

datatype pyfloat = Fin real | PosInf | NegInf | NaN

datatype pyval =
    PNone | PBool bool | PInt int | PFloat pyfloat | PStr string | PSeq "pyval list"

text \<open>An instance attribute that \<^verbatim>\<open>__init__\<close> does not create: reading it before a
  method has assigned it raises \<^verbatim>\<open>AttributeError\<close>.\<close>

datatype 'a attr = Unset | Assigned 'a

fun getattr :: "'a attr \<Rightarrow> error + 'a" where
  "getattr Unset = Inl AttributeError"
| "getattr (Assigned v) = Inr v"

text \<open>\<^verbatim>\<open>str.lower\<close> of a byte string (the module is Python 2 code): the letters A to Z
  are mapped to a to z, every other byte is kept.\<close>

definition lower_char :: "char \<Rightarrow> char" where
  "lower_char c =
     (case map_of (zip ''ABCDEFGHIJKLMNOPQRSTUVWXYZ'' ''abcdefghijklmnopqrstuvwxyz'') c of
        Some d \<Rightarrow> d
      | None \<Rightarrow> c)"

definition lower :: "string \<Rightarrow> string" where
  "lower s = map lower_char s"

subsection \<open>The instance\<close>

datatype scorer = BrierScorer | RmseScoring

datatype param_value = PFlag bool | PName string

type_synonym grid = "string \<rightharpoonup> param_value list"

text \<open>The comparisons \<^verbatim>\<open><\<close> and \<^verbatim>\<open><=\<close> of two floats: both are false as soon as one
  of them is NaN.\<close>

fun float_lt :: "pyfloat \<Rightarrow> pyfloat \<Rightarrow> bool" where
  "float_lt (Fin a) (Fin b) = (a < b)"
| "float_lt (Fin a) PosInf = True"
| "float_lt NegInf (Fin b) = True"
| "float_lt NegInf PosInf = True"
| "float_lt x y = False"


text \<open>A fitted search object: its best estimator and its best score, a float.\<close>

record 'p gs_result =
  best_estimator :: 'p
  best_score :: pyfloat

text \<open>One entry of \<^verbatim>\<open>grid_search_pipelines\<close>: the list \<^verbatim>\<open>pipeline_results\<close>, which is
  \<^verbatim>\<open>[holdout_data_score, gs.best_score_, gs]\<close> when the holdout score was appended
  and \<^verbatim>\<open>[gs.best_score_, gs]\<close> otherwise.\<close>

datatype 'p pipeline_results =
    WithHoldout pyfloat pyfloat "'p gs_result"
  | CvOnly pyfloat "'p gs_result"

text \<open>\<^verbatim>\<open>x[0]\<close> and \<^verbatim>\<open>x[-1]\<close> of such a list.\<close>

fun first_item :: "'p pipeline_results \<Rightarrow> pyfloat" where
  "first_item (WithHoldout h c g) = h"
| "first_item (CvOnly c g) = c"

fun last_item :: "'p pipeline_results \<Rightarrow> 'p gs_result" where
  "last_item (WithHoldout h c g) = g"
| "last_item (CvOnly c g) = g"

record ('r, 'p) predictor =
  type_of_estimator :: string
  column_descriptions :: "(string \<times> string) list"
  verbose :: bool
  trained_pipeline :: "'p option"
  scorer_attr :: "scorer option"
  date_cols :: "string list"
  took_log_of_y :: bool
  output_column :: "string attr"
  grid_search_pipelines :: "'p pipeline_results list attr"
  write_gs_param_results_to_file :: "bool attr"
  gs_param_file_name :: "string attr"
  compute_power :: "int attr"
  ml_for_analytics :: "bool attr"
  only_analytics :: "bool attr"
  X_test :: "'r list option attr"
  y_test :: "pyval list option attr"
  print_training_summary_to_viewer :: "bool attr"
  take_log_of_y :: "bool attr"
  grid_search_params :: "grid attr"

subsection \<open>Construction\<close>

definition regressor_synonyms :: "string list" where
  "regressor_synonyms =
     [''regressor'', ''regression'', ''regressions'', ''regressors'', ''number'',
      ''numeric'', ''continuous'']"

definition classifier_synonyms :: "string list" where
  "classifier_synonyms =
     [''classifier'', ''classification'', ''categorizer'', ''categorization'',
      ''categories'', ''labels'', ''labeled'', ''label'']"

text \<open>The loop of \<^verbatim>\<open>__init__\<close> over \<^verbatim>\<open>column_descriptions.items()\<close>, in the order the
  dictionary yields its items: the accumulator is the dictionary with the roles
  lowered so far, \<^verbatim>\<open>output_column\<close> and \<^verbatim>\<open>date_cols\<close>.\<close>

fun scan_columns ::
  "(string \<times> string) list \<Rightarrow> (string \<times> string) list \<times> string attr \<times> string list
     \<Rightarrow> (string \<times> string) list \<times> string attr \<times> string list" where
  "scan_columns [] acc = acc"
| "scan_columns ((key, val) # rest) (cd, out, dates) =
     (let v = lower val; cd' = cd @ [(key, v)] in
      if v = ''output'' then scan_columns rest (cd', Assigned key, dates)
      else if v = ''date'' then scan_columns rest (cd', out, dates @ [key])
      else scan_columns rest (cd', out, dates))"

text \<open>The attributes \<^verbatim>\<open>__init__\<close> assigns once the estimator kind is accepted.\<close>

definition init_fields ::
  "string \<Rightarrow> (string \<times> string) list \<Rightarrow> bool \<Rightarrow> ('r, 'p) predictor" where
  "init_fields kind cds verb =
     (case scan_columns cds ([], Unset, []) of (cd, out, dates) \<Rightarrow>
        \<lparr> type_of_estimator = kind,
          column_descriptions = cd,
          verbose = verb,
          trained_pipeline = None,
          scorer_attr = None,
          date_cols = dates,
          took_log_of_y = False,
          output_column = out,
          grid_search_pipelines = Assigned [],
          write_gs_param_results_to_file = Unset,
          gs_param_file_name = Unset,
          compute_power = Unset,
          ml_for_analytics = Unset,
          only_analytics = Unset,
          X_test = Unset,
          y_test = Unset,
          print_training_summary_to_viewer = Unset,
          take_log_of_y = Unset,
          grid_search_params = Unset \<rparr>)"

definition init ::
  "string \<Rightarrow> (string \<times> string) list \<Rightarrow> bool \<Rightarrow> error + ('r, 'p) predictor" where
  "init kind cds verb =
     (if lower kind \<in> set regressor_synonyms then Inr (init_fields ''regressor'' cds verb)
      else if lower kind \<in> set classifier_synonyms
      then Inr (init_fields ''classifier'' cds verb)
      else Inl ValueError)"

subsection \<open>The pipeline builder\<close>

text \<open>A stage of the pipeline: its name in the step list and the object built for
  it, with the arguments of its constructor.\<close>

datatype 'f stage =
    FunctionTransformer 'f
  | FeatureEngineer "string list"
  | BasicDataCleaning "(string \<times> string) list"
  | CustomSparseScaler "(string \<times> string) list"
  | DictVectorizer
  | FeatureSelectionTransformer string string
  | FinalModelATC string bool string bool

definition construct_pipeline ::
  "('r, 'p) predictor \<Rightarrow> 'f option \<Rightarrow> string \<Rightarrow> bool \<Rightarrow> bool \<Rightarrow> bool \<Rightarrow> bool \<Rightarrow> bool
     \<Rightarrow> (string \<times> 'f stage) list" where
  "construct_pipeline self user_input_func model_name optimize_final_model
       perform_feature_selection impute_missing_values ml_for_analytics_arg
       perform_feature_scaling =
     (case user_input_func of
        None \<Rightarrow> []
      | Some f \<Rightarrow> [(''user_func'', FunctionTransformer f)])
     @ (if length (date_cols self) > 0
        then [(''date_feature_engineering'', FeatureEngineer (date_cols self))] else [])
     @ [(''basic_transform'', BasicDataCleaning (column_descriptions self))]
     @ (if perform_feature_scaling
        then [(''scaler'', CustomSparseScaler (column_descriptions self))] else [])
     @ [(''dv'', DictVectorizer)]
     @ (if perform_feature_selection
        then [(''feature_selection'',
               FeatureSelectionTransformer (type_of_estimator self) ''SelectFromModel'')]
        else [])
     @ [(''final_model'',
         FinalModelATC model_name optimize_final_model (type_of_estimator self)
           ml_for_analytics_arg)]"

subsection \<open>The search-space builder\<close>

text \<open>In the classifier branch the source reads the bare name \<^verbatim>\<open>compute_power\<close>,
  which is bound neither in the method nor in the module: \<^verbatim>\<open>NameError\<close>. In the last
  branch it raises a string, which is a \<^verbatim>\<open>TypeError\<close>.\<close>

definition get_estimator_names :: "('r, 'p) predictor \<Rightarrow> error + string list" where
  "get_estimator_names self =
     (if type_of_estimator self = ''regressor'' then
        (case getattr (compute_power self) of
           Inl e \<Rightarrow> Inl e
         | Inr cp \<Rightarrow>
             if cp < 7 then Inr [''Ridge'', ''XGBRegressor'']
             else Inr [''Ridge'', ''XGBRegressor'', ''RANSACRegressor'',
                       ''RandomForestRegressor'', ''LinearRegression'',
                       ''AdaBoostRegressor'', ''ExtraTreesRegressor''])
      else if type_of_estimator self = ''classifier'' then Inl NameError
      else Inl TypeError)"

text \<open>A list argument is true when it is neither \<^verbatim>\<open>None\<close> nor empty.\<close>

fun truthy :: "'a list option \<Rightarrow> bool" where
  "truthy None = False"
| "truthy (Some xs) = (xs \<noteq> [])"

definition construct_pipeline_search_params ::
  "('r, 'p) predictor \<Rightarrow> bool \<Rightarrow> bool \<Rightarrow> bool \<Rightarrow> bool \<Rightarrow> string list option
     \<Rightarrow> error + grid" where
  "construct_pipeline_search_params self optimize_entire_pipeline optimize_final_model
       ml_for_analytics_arg perform_feature_selection user_defined_model_names =
     (case getattr (compute_power self) of
        Inl e \<Rightarrow> Inl e
      | Inr cp \<Rightarrow>
          (let gs0 = (Map.empty :: grid);
               gs1 = (if optimize_final_model \<or> cp \<ge> 5
                      then gs0(''final_model__perform_grid_search_on_model''
                                 \<mapsto> [PFlag True, PFlag False])
                      else gs0);
               gs2 = (if cp \<ge> 3
                      then gs1(''scaler__truncate_large_values''
                                 \<mapsto> [PFlag True, PFlag False])
                      else gs1)
           in case (if truthy user_defined_model_names
                    then Inr (the user_defined_model_names)
                    else get_estimator_names self) of
                Inl e \<Rightarrow> Inl e
              | Inr model_names \<Rightarrow>
                  (let gs3 = gs2(''final_model__model_name'' \<mapsto> map PName model_names)
                   in Inr (if cp \<ge> 10
                           then gs3(''feature_selection__feature_selection_model''
                                      \<mapsto> map PName [''SelectFromModel'',
                                            ''GenericUnivariateSelect'', ''KeepAll'',
                                            ''RFECV''])
                           else gs3))))"

subsection \<open>The library\<close>

text \<open>What the class calls and does not define. \<^verbatim>\<open>py_int\<close> and \<^verbatim>\<open>py_float\<close> are the
  builtins \<^verbatim>\<open>int\<close> and \<^verbatim>\<open>float\<close> (\<^verbatim>\<open>None\<close> when they raise); \<^verbatim>\<open>split_output\<close> is
  \<^verbatim>\<open>utils.split_output\<close>; \<^verbatim>\<open>grid_search_fit\<close> builds the \<^verbatim>\<open>GridSearchCV\<close> over the
  pipeline, the parameter grid, the verbosity and the scorer and fits it;
  \<^verbatim>\<open>call_scorer\<close> calls the stored scorer on the retained pipeline (which may be
  \<^verbatim>\<open>None\<close>), the holdout data and \<^verbatim>\<open>took_log_of_y\<close>; the three \<^verbatim>\<open>pipeline_\<close> fields are
  the methods of a fitted pipeline; \<^verbatim>\<open>write_gs_results\<close> is
  \<^verbatim>\<open>utils.write_gs_param_results_to_file\<close>. The two \<^verbatim>\<open>analytics_\<close> fields stand for
  \<^verbatim>\<open>_print_ml_analytics_results_regression\<close> and \<^verbatim>\<open>_print_ml_analytics_results_random_forest\<close>,
  which read the fitted stages of the retained pipeline and print: they change no
  attribute and may raise. \<^verbatim>\<open>sort_inconsistent\<close> is what the builtin \<^verbatim>\<open>sorted\<close> returns
  for the search results when one of the scores it compares is NaN.\<close>

record ('r, 'f, 'p) env =
  py_int :: "pyval \<Rightarrow> int option"
  py_float :: "pyval \<Rightarrow> pyfloat option"
  split_output :: "'r list \<Rightarrow> string \<Rightarrow> error + ('r list \<times> pyval list)"
  grid_search_fit ::
    "(string \<times> 'f stage) list \<Rightarrow> grid \<Rightarrow> nat \<Rightarrow> scorer \<Rightarrow> 'r list \<Rightarrow> pyval list
       \<Rightarrow> error + 'p gs_result"
  call_scorer :: "scorer \<Rightarrow> 'p option \<Rightarrow> 'r list \<Rightarrow> pyval list \<Rightarrow> bool \<Rightarrow> error + pyfloat"
  pipeline_score :: "'p \<Rightarrow> 'r list \<Rightarrow> pyval list \<Rightarrow> error + pyfloat"
  pipeline_predict :: "'p \<Rightarrow> 'r list \<Rightarrow> error + pyval"
  pipeline_predict_proba :: "'p \<Rightarrow> 'r list \<Rightarrow> error + pyval"
  analytics_regression :: "string \<Rightarrow> 'p \<Rightarrow> error option"
  analytics_random_forest :: "'p \<Rightarrow> error option"
  write_gs_results :: "'p gs_result \<Rightarrow> string \<Rightarrow> error option"
  sort_inconsistent :: "'p pipeline_results list \<Rightarrow> 'p pipeline_results list"

subsection \<open>Preparation of the training data\<close>

text \<open>What \<^verbatim>\<open>_prepare_for_training\<close> prints.\<close>

datatype printed = Text string | IndexList "nat list" | ValueList "pyval list"

text \<open>The classifier branch: one \<^verbatim>\<open>try\<close> around the whole loop. The loop returns the
  list \<^verbatim>\<open>y_ints\<close> when every \<^verbatim>\<open>int(val)\<close> returns, and \<^verbatim>\<open>None\<close> as soon as one raises; then
  the \<^verbatim>\<open>except\<close> clause passes and \<^verbatim>\<open>y\<close> is what it was.\<close>

fun int_loop :: "(pyval \<Rightarrow> int option) \<Rightarrow> pyval list \<Rightarrow> int list \<Rightarrow> int list option" where
  "int_loop f [] y_ints = Some y_ints"
| "int_loop f (val # rest) y_ints =
     (case f val of
        None \<Rightarrow> None
      | Some i \<Rightarrow> int_loop f rest (y_ints @ [i]))"

definition classifier_targets :: "(pyval \<Rightarrow> int option) \<Rightarrow> pyval list \<Rightarrow> pyval list" where
  "classifier_targets f y =
     (case int_loop f y [] of
        Some y_ints \<Rightarrow> map PInt y_ints
      | None \<Rightarrow> y)"

text \<open>The regressor branch: the loop over \<^verbatim>\<open>enumerate(y)\<close> with its three accumulators
  \<^verbatim>\<open>indices_to_delete\<close>, \<^verbatim>\<open>y_floats\<close> and \<^verbatim>\<open>bad_vals\<close>, one \<^verbatim>\<open>try\<close> per value.\<close>

fun float_loop ::
  "(pyval \<Rightarrow> pyfloat option) \<Rightarrow> (nat \<times> pyval) list
     \<Rightarrow> nat list \<times> pyfloat list \<times> pyval list \<Rightarrow> nat list \<times> pyfloat list \<times> pyval list" where
  "float_loop f [] acc = acc"
| "float_loop f ((idx, val) # rest) (indices_to_delete, y_floats, bad_vals) =
     (case f val of
        Some float_val \<Rightarrow> float_loop f rest (indices_to_delete, y_floats @ [float_val], bad_vals)
      | None \<Rightarrow> float_loop f rest (indices_to_delete @ [idx], y_floats, bad_vals @ [val]))"

definition regressor_targets ::
  "(pyval \<Rightarrow> pyfloat option) \<Rightarrow> 'r list \<Rightarrow> pyval list \<Rightarrow> 'r list \<times> pyval list \<times> printed list" where
  "regressor_targets f X y =
     (case float_loop f (enumerate 0 y) ([], [], []) of
        (indices_to_delete, y_floats, bad_vals) \<Rightarrow>
          if length indices_to_delete > 0 then
            (map snd (filter (\<lambda>(idx, row). idx \<notin> set indices_to_delete) (enumerate 0 X)),
             map PFloat y_floats,
             [Text ''The y values given included some bad values that the machine learning algorithms will not be able to train on.'',
              Text ''The rows at these indices have been deleted because their y value could not be turned into a float:'',
              IndexList indices_to_delete,
              Text ''These were the bad values'',
              ValueList bad_vals])
          else (X, map PFloat y_floats, []))"

text \<open>The positions of a target sequence whose value \<^verbatim>\<open>float\<close> rejects, and the
  others, in ascending order.\<close>

definition rejected_indices :: "(pyval \<Rightarrow> pyfloat option) \<Rightarrow> pyval list \<Rightarrow> nat list" where
  "rejected_indices f y = filter (\<lambda>i. f (y ! i) = None) [0 ..< length y]"

definition accepted_indices :: "(pyval \<Rightarrow> pyfloat option) \<Rightarrow> pyval list \<Rightarrow> nat list" where
  "accepted_indices f y = filter (\<lambda>i. f (y ! i) \<noteq> None) [0 ..< length y]"

text \<open>Coercion of the labels one record at a time, as the spec words it: "each
  value is coerced to an integer label; values that fail coercion cause that
  record to be silently retained with its original value".\<close>

definition per_record_labels :: "(pyval \<Rightarrow> int option) \<Rightarrow> pyval list \<Rightarrow> pyval list" where
  "per_record_labels f y = map (\<lambda>v. case f v of Some i \<Rightarrow> PInt i | None \<Rightarrow> v) y"

text \<open>\<^verbatim>\<open>_prepare_for_training\<close>: the result, or the exception, and the instance (the
  method assigns \<^verbatim>\<open>gs_param_file_name\<close>). Removing the old results file is not
  modelled: the source ignores its failure.\<close>

definition prepare_for_training ::
  "('r, 'f, 'p) env \<Rightarrow> ('r, 'p) predictor \<Rightarrow> 'r list
     \<Rightarrow> (error + 'r list \<times> pyval list \<times> printed list) \<times> ('r, 'p) predictor" where
  "prepare_for_training env self raw_training_data =
     (case getattr (write_gs_param_results_to_file self) of
        Inl e \<Rightarrow> (Inl e, self)
      | Inr w \<Rightarrow>
          (let self1 = (if w then self\<lparr>gs_param_file_name :=
                                      Assigned ''most_recent_pipeline_grid_search_result.csv''\<rparr>
                        else self)
           in case getattr (output_column self1) of
                Inl e \<Rightarrow> (Inl e, self1)
              | Inr col \<Rightarrow>
                  (case split_output env raw_training_data col of
                     Inl e \<Rightarrow> (Inl e, self1)
                   | Inr (X, y) \<Rightarrow>
                       if type_of_estimator self1 = ''classifier''
                       then (Inr (X, classifier_targets (py_int env) y, []), self1)
                       else (Inr (regressor_targets (py_float env) X y), self1))))"

subsection \<open>Scoring and prediction\<close>

text \<open>\<^verbatim>\<open>math.log\<close> and \<^verbatim>\<open>math.exp\<close> of a Python value: a number that is not positive is
  outside the domain of the logarithm (\<^verbatim>\<open>ValueError: math domain error\<close>), a value that
  is not a number is a \<^verbatim>\<open>TypeError\<close>.\<close>

fun math_log :: "pyval \<Rightarrow> error + pyval" where
  "math_log (PFloat (Fin r)) = (if r \<le> 0 then Inl ValueError else Inr (PFloat (Fin (ln r))))"
| "math_log (PFloat PosInf) = Inr (PFloat PosInf)"
| "math_log (PFloat NegInf) = Inl ValueError"
| "math_log (PFloat NaN) = Inr (PFloat NaN)"
| "math_log (PInt i) = (if i \<le> 0 then Inl ValueError else Inr (PFloat (Fin (ln (real_of_int i)))))"
| "math_log (PBool b) = (if b then Inr (PFloat (Fin 0)) else Inl ValueError)"
| "math_log PNone = Inl TypeError"
| "math_log (PStr s) = Inl TypeError"
| "math_log (PSeq xs) = Inl TypeError"

fun math_exp :: "pyval \<Rightarrow> error + pyval" where
  "math_exp (PFloat (Fin r)) = Inr (PFloat (Fin (exp r)))"
| "math_exp (PFloat PosInf) = Inr (PFloat PosInf)"
| "math_exp (PFloat NegInf) = Inr (PFloat (Fin 0))"
| "math_exp (PFloat NaN) = Inr (PFloat NaN)"
| "math_exp (PInt i) = Inr (PFloat (Fin (exp (real_of_int i))))"
| "math_exp (PBool b) = Inr (PFloat (Fin (exp (if b then 1 else 0))))"
| "math_exp PNone = Inl TypeError"
| "math_exp (PStr s) = Inl TypeError"
| "math_exp (PSeq xs) = Inl TypeError"

text \<open>A list comprehension whose element expression may raise: the first exception
  ends it.\<close>

fun map_raise :: "('a \<Rightarrow> error + 'b) \<Rightarrow> 'a list \<Rightarrow> error + 'b list" where
  "map_raise f [] = Inr []"
| "map_raise f (x # xs) =
     (case f x of
        Inl e \<Rightarrow> Inl e
      | Inr v \<Rightarrow> (case map_raise f xs of Inl e \<Rightarrow> Inl e | Inr vs \<Rightarrow> Inr (v # vs)))"

text \<open>The target \<^verbatim>\<open>idx, val\<close> of the loop in \<^verbatim>\<open>predict\<close> unpacks every element of the
  predictions: an element that is not iterable is a \<^verbatim>\<open>TypeError\<close>, an iterable that
  has not exactly two items a \<^verbatim>\<open>ValueError\<close>.\<close>

fun unpack_pair :: "pyval \<Rightarrow> error + pyval \<times> pyval" where
  "unpack_pair (PSeq [a, b]) = Inr (a, b)"
| "unpack_pair (PSeq xs) = Inl ValueError"
| "unpack_pair (PStr [a, b]) = Inr (PStr [a], PStr [b])"
| "unpack_pair (PStr s) = Inl ValueError"
| "unpack_pair v = Inl TypeError"

text \<open>\<^verbatim>\<open>predicted_vals[idx] = v\<close> on a list: the index is an integer (a negative one
  counts from the end), inside the list.\<close>

definition set_index :: "pyval list \<Rightarrow> int \<Rightarrow> pyval \<Rightarrow> error + pyval list" where
  "set_index xs i v =
     (if 0 \<le> i \<and> i < int (length xs) then Inr (xs[nat i := v])
      else if - int (length xs) \<le> i \<and> i < 0 then Inr (xs[nat (int (length xs) + i) := v])
      else Inl IndexError)"

fun set_item :: "pyval list \<Rightarrow> pyval \<Rightarrow> pyval \<Rightarrow> error + pyval list" where
  "set_item xs (PInt i) v = set_index xs i v"
| "set_item xs (PBool b) v = set_index xs (if b then 1 else 0) v"
| "set_item xs idx v = Inl TypeError"

text \<open>The loop \<^verbatim>\<open>for idx, val in predicted_vals: predicted_vals[idx] = math.exp(val)\<close>
  over a list it assigns into: \<^verbatim>\<open>n\<close> iterations are left, the next reads position
  \<^verbatim>\<open>k\<close> of the list as it is by then.\<close>

fun exp_loop :: "nat \<Rightarrow> nat \<Rightarrow> pyval list \<Rightarrow> error + pyval list" where
  "exp_loop 0 k xs = Inr xs"
| "exp_loop (Suc n) k xs =
     (case unpack_pair (xs ! k) of
        Inl e \<Rightarrow> Inl e
      | Inr (idx, val) \<Rightarrow>
          (case math_exp val of
             Inl e \<Rightarrow> Inl e
           | Inr v \<Rightarrow>
               (case set_item xs idx v of
                  Inl e \<Rightarrow> Inl e
                | Inr xs' \<Rightarrow> exp_loop n (Suc k) xs')))"

text \<open>The predictions are a sequence, modelled as a Python list (a one-dimensional
  array of numbers behaves the same in this loop). A string is iterated by characters, any
  other value is not iterable.\<close>

fun undo_log :: "pyval \<Rightarrow> error + pyval" where
  "undo_log (PSeq xs) =
     (case exp_loop (length xs) 0 xs of Inl e \<Rightarrow> Inl e | Inr xs' \<Rightarrow> Inr (PSeq xs'))"
| "undo_log (PStr []) = Inr (PStr [])"
| "undo_log (PStr (c # cs)) = Inl ValueError"
| "undo_log v = Inl TypeError"

definition predict :: "('r, 'f, 'p) env \<Rightarrow> ('r, 'p) predictor \<Rightarrow> 'r list \<Rightarrow> error + pyval" where
  "predict env self prediction_data =
     (case trained_pipeline self of
        None \<Rightarrow> Inl AttributeError
      | Some ppl \<Rightarrow>
          (case pipeline_predict env ppl prediction_data of
             Inl e \<Rightarrow> Inl e
           | Inr predicted_vals \<Rightarrow>
               if took_log_of_y self then undo_log predicted_vals else Inr predicted_vals))"

definition predict_proba ::
  "('r, 'f, 'p) env \<Rightarrow> ('r, 'p) predictor \<Rightarrow> 'r list \<Rightarrow> error + pyval" where
  "predict_proba env self prediction_data =
     (case trained_pipeline self of
        None \<Rightarrow> Inl AttributeError
      | Some ppl \<Rightarrow> pipeline_predict_proba env ppl prediction_data)"

definition score ::
  "('r, 'f, 'p) env \<Rightarrow> ('r, 'p) predictor \<Rightarrow> 'r list \<Rightarrow> pyval list \<Rightarrow> error + pyfloat" where
  "score env self Xt yt =
     (case scorer_attr self of
        Some sc \<Rightarrow> call_scorer env sc (trained_pipeline self) Xt yt (took_log_of_y self)
      | None \<Rightarrow>
          (case trained_pipeline self of
             None \<Rightarrow> Inl AttributeError
           | Some ppl \<Rightarrow> pipeline_score env ppl Xt yt))"

subsection \<open>The training driver\<close>

text \<open>Lines 238 to 240: the parameter grid of one per-family search. The driver
  calls \<^verbatim>\<open>_construct_pipeline_search_params\<close> with its default arguments.\<close>

definition family_search_params :: "('r, 'p) predictor \<Rightarrow> string \<Rightarrow> error + grid" where
  "family_search_params self model_name =
     (case construct_pipeline_search_params self True False False True None of
        Inl e \<Rightarrow> Inl e
      | Inr params \<Rightarrow> Inr (params(''final_model__model_name'' \<mapsto> [PName model_name])))"

text \<open>Lines 269 to 272: the report chosen by the family's name.\<close>

definition analytics :: "('r, 'f, 'p) env \<Rightarrow> ('r, 'p) predictor \<Rightarrow> string \<Rightarrow> error option" where
  "analytics env self model_name =
     (if model_name \<in> set [''LogisticRegression'', ''RidgeClassifier'',
                             ''LinearRegression'', ''Ridge'']
      then (case trained_pipeline self of
              None \<Rightarrow> Some AttributeError
            | Some ppl \<Rightarrow> analytics_regression env (type_of_estimator self) ppl)
      else if model_name \<in> set [''RandomForestClassifier'', ''RandomForestRegressor'',
                                  ''XGBClassifier'', ''XGBRegressor'']
      then (case trained_pipeline self of
              None \<Rightarrow> Some AttributeError
            | Some ppl \<Rightarrow> analytics_random_forest env ppl)
      else None)"

text \<open>Lines 279 to 292: the list \<^verbatim>\<open>pipeline_results\<close> of one search. The holdout score
  comes first when \<^verbatim>\<open>self.X_test and self.y_test\<close> is true.\<close>

definition holdout_results ::
  "('r, 'f, 'p) env \<Rightarrow> ('r, 'p) predictor \<Rightarrow> 'p gs_result \<Rightarrow> error + 'p pipeline_results" where
  "holdout_results env self gs =
     (case getattr (X_test self) of
        Inl e \<Rightarrow> Inl e
      | Inr xt \<Rightarrow>
          if \<not> truthy xt then Inr (CvOnly (best_score gs) gs)
          else (case getattr (y_test self) of
                  Inl e \<Rightarrow> Inl e
                | Inr yt \<Rightarrow>
                    if \<not> truthy yt then Inr (CvOnly (best_score gs) gs)
                    else (case score env self (the xt) (the yt) of
                            Inl e \<Rightarrow> Inl e
                          | Inr holdout_data_score \<Rightarrow>
                              Inr (WithHoldout holdout_data_score (best_score gs) gs))))"

text \<open>Lines 269 to 292, which assign no attribute: the reports, the results file,
  the holdout score and the training summary (printing is not modelled, reading
  the switch is).\<close>

definition after_fit ::
  "('r, 'f, 'p) env \<Rightarrow> ('r, 'p) predictor \<Rightarrow> string \<Rightarrow> 'p gs_result
     \<Rightarrow> error + 'p pipeline_results" where
  "after_fit env self model_name gs =
     (case analytics env self model_name of
        Some e \<Rightarrow> Inl e
      | None \<Rightarrow>
     (case getattr (write_gs_param_results_to_file self) of
        Inl e \<Rightarrow> Inl e
      | Inr w \<Rightarrow>
     (case (if w then (case getattr (gs_param_file_name self) of
                         Inl e \<Rightarrow> Some e
                       | Inr name \<Rightarrow> write_gs_results env gs name)
            else None) of
        Some e \<Rightarrow> Inl e
      | None \<Rightarrow>
     (case holdout_results env self gs of
        Inl e \<Rightarrow> Inl e
      | Inr pipeline_results \<Rightarrow>
     (case getattr (print_training_summary_to_viewer self) of
        Inl e \<Rightarrow> Inl e
      | Inr summary \<Rightarrow> Inr pipeline_results)))))"

text \<open>One iteration of the loop of \<^verbatim>\<open>perform_grid_search_by_model_names\<close>.\<close>

definition grid_search_family ::
  "('r, 'f, 'p) env \<Rightarrow> ('r, 'p) predictor \<Rightarrow> string \<Rightarrow> (string \<times> 'f stage) list \<Rightarrow> scorer
     \<Rightarrow> 'r list \<Rightarrow> pyval list \<Rightarrow> error option \<times> ('r, 'p) predictor" where
  "grid_search_family env self model_name ppl scoring X y =
     (case family_search_params self model_name of
        Inl e \<Rightarrow> (Some e, self)
      | Inr params \<Rightarrow>
          (let self1 = self\<lparr>grid_search_params := Assigned params\<rparr>;
               grid_search_verbose = (if verbose self1 then 5 else 0)
           in case grid_search_fit env ppl params grid_search_verbose scoring X y of
                Inl e \<Rightarrow> (Some e, self1)
              | Inr gs \<Rightarrow>
                  (let self2 = self1\<lparr>trained_pipeline := Some (best_estimator gs)\<rparr>
                   in case after_fit env self2 model_name gs of
                        Inl e \<Rightarrow> (Some e, self2)
                      | Inr pipeline_results \<Rightarrow>
                          (case getattr (grid_search_pipelines self2) of
                             Inl e \<Rightarrow> (Some e, self2)
                           | Inr results \<Rightarrow>
                               (None, self2\<lparr>grid_search_pipelines :=
                                              Assigned (results @ [pipeline_results])\<rparr>)))))"

fun perform_grid_search_by_model_names ::
  "('r, 'f, 'p) env \<Rightarrow> ('r, 'p) predictor \<Rightarrow> string list \<Rightarrow> (string \<times> 'f stage) list
     \<Rightarrow> scorer \<Rightarrow> 'r list \<Rightarrow> pyval list \<Rightarrow> error option \<times> ('r, 'p) predictor" where
  "perform_grid_search_by_model_names env self [] ppl scoring X y = (None, self)"
| "perform_grid_search_by_model_names env self (model_name # rest) ppl scoring X y =
     (case grid_search_family env self model_name ppl scoring X y of
        (Some e, self') \<Rightarrow> (Some e, self')
      | (None, self') \<Rightarrow> perform_grid_search_by_model_names env self' rest ppl scoring X y)"

text \<open>\<^verbatim>\<open>sorted(xs, key=key, reverse=True)\<close> on float keys. When no key is NaN the
  keys are totally ordered and the result is determined: descending by key, items
  of equal key in the order they have in \<^verbatim>\<open>xs\<close> (the sort is stable, with
  \<^verbatim>\<open>reverse\<close> too). It is computed by insertion, from the last item to the first.
  When a key is NaN the comparisons are inconsistent and the result depends on
  the sorting algorithm of the interpreter: it is the library's.\<close>

fun insert_desc :: "('a \<Rightarrow> pyfloat) \<Rightarrow> 'a \<Rightarrow> 'a list \<Rightarrow> 'a list" where
  "insert_desc key x [] = [x]"
| "insert_desc key x (y # ys) =
     (if float_lt (key x) (key y) then y # insert_desc key x ys else x # y # ys)"

definition sorted_reverse :: "('a list \<Rightarrow> 'a list) \<Rightarrow> ('a \<Rightarrow> pyfloat) \<Rightarrow> 'a list \<Rightarrow> 'a list" where
  "sorted_reverse inconsistent key xs =
     (if list_ex (\<lambda>x. key x = NaN) xs then inconsistent xs
      else foldr (insert_desc key) xs [])"

text \<open>Lines 223 to 232: the selection. Indexing the sorted list at 0 raises
  \<^verbatim>\<open>IndexError\<close> when there is no result.\<close>

definition select_best ::
  "('r, 'f, 'p) env \<Rightarrow> ('r, 'p) predictor \<Rightarrow> error option \<times> ('r, 'p) predictor" where
  "select_best env self =
     (case getattr (grid_search_pipelines self) of
        Inl e \<Rightarrow> (Some e, self)
      | Inr results \<Rightarrow>
          (case sorted_reverse (sort_inconsistent env) first_item results of
             [] \<Rightarrow> (Some IndexError, self)
           | best_result_list # others \<Rightarrow>
               (None, self\<lparr>trained_pipeline :=
                              Some (best_estimator (last_item best_result_list)),
                            grid_search_pipelines := Unset\<rparr>)))"

text \<open>The arguments of \<^verbatim>\<open>train\<close> after \<^verbatim>\<open>raw_training_data\<close>, and their defaults.\<close>

record ('r, 'f) train_args =
  arg_user_input_func :: "'f option"
  arg_optimize_entire_pipeline :: bool
  arg_optimize_final_model :: bool
  arg_write_gs_param_results_to_file :: bool
  arg_perform_feature_selection :: bool
  arg_verbose :: bool
  arg_X_test :: "'r list option"
  arg_y_test :: "pyval list option"
  arg_print_training_summary_to_viewer :: bool
  arg_ml_for_analytics :: bool
  arg_only_analytics :: bool
  arg_compute_power :: int
  arg_take_log_of_y :: bool
  arg_model_names :: "string list option"

definition default_args :: "('r, 'f) train_args" where
  "default_args =
     \<lparr> arg_user_input_func = None,
       arg_optimize_entire_pipeline = False,
       arg_optimize_final_model = False,
       arg_write_gs_param_results_to_file = True,
       arg_perform_feature_selection = True,
       arg_verbose = True,
       arg_X_test = None,
       arg_y_test = None,
       arg_print_training_summary_to_viewer = True,
       arg_ml_for_analytics = True,
       arg_only_analytics = False,
       arg_compute_power = 3,
       arg_take_log_of_y = True,
       arg_model_names = None \<rparr>"

text \<open>Lines 172 to 180: the arguments stored on the instance. \<^verbatim>\<open>take_log_of_y\<close> is
  stored for a regressor only.\<close>

definition store_args :: "('r, 'p) predictor \<Rightarrow> ('r, 'f) train_args \<Rightarrow> ('r, 'p) predictor" where
  "store_args self a =
     (let self1 = self\<lparr> write_gs_param_results_to_file :=
                          Assigned (arg_write_gs_param_results_to_file a),
                        compute_power := Assigned (arg_compute_power a),
                        ml_for_analytics := Assigned (arg_ml_for_analytics a),
                        only_analytics := Assigned (arg_only_analytics a),
                        X_test := Assigned (arg_X_test a),
                        y_test := Assigned (arg_y_test a),
                        print_training_summary_to_viewer :=
                          Assigned (arg_print_training_summary_to_viewer a) \<rparr>
      in if type_of_estimator self1 = ''regressor''
         then self1\<lparr>take_log_of_y := Assigned (arg_take_log_of_y a)\<rparr>
         else self1)"

text \<open>Lines 187 to 189: the logarithm of the targets.\<close>

definition log_targets ::
  "('r, 'p) predictor \<Rightarrow> pyval list \<Rightarrow> (error + pyval list) \<times> ('r, 'p) predictor" where
  "log_targets self y =
     (case getattr (take_log_of_y self) of
        Inl e \<Rightarrow> (Inl e, self)
      | Inr take_log \<Rightarrow>
          if take_log then
            (case map_raise math_log y of
               Inl e \<Rightarrow> (Inl e, self)
             | Inr y' \<Rightarrow> (Inr y', self\<lparr>took_log_of_y := True\<rparr>))
          else (Inr y, self))"

text \<open>Lines 199 to 202: the families to search.\<close>

definition estimator_names_of ::
  "('r, 'p) predictor \<Rightarrow> string list option \<Rightarrow> error + string list" where
  "estimator_names_of self model_names =
     (if truthy model_names then Inr (the model_names) else get_estimator_names self)"

text \<open>Lines 204 to 209: the scorer.\<close>

definition scoring_of :: "('r, 'p) predictor \<Rightarrow> scorer" where
  "scoring_of self =
     (if type_of_estimator self = ''classifier'' then BrierScorer else RmseScoring)"

text \<open>Lines 172 to 215 of \<^verbatim>\<open>train\<close>, up to the end of the searches: the exception
  raised, if any, and the instance by then. The progress messages are not
  modelled. \<^verbatim>\<open>self.ml_for_analytics\<close> on line 194 is the argument stored on line 174.\<close>

definition train_search ::
  "('r, 'f, 'p) env \<Rightarrow> ('r, 'p) predictor \<Rightarrow> 'r list \<Rightarrow> ('r, 'f) train_args
     \<Rightarrow> error option \<times> ('r, 'p) predictor" where
  "train_search env self raw_training_data a =
     (case prepare_for_training env (store_args self a) raw_training_data of
        (Inl e, self1) \<Rightarrow> (Some e, self1)
      | (Inr (X, y, out), self1) \<Rightarrow>
     (case log_targets self1 y of
        (Inl e, self2) \<Rightarrow> (Some e, self2)
      | (Inr y', self2) \<Rightarrow>
     (let ppl = construct_pipeline self2 (arg_user_input_func a) ''LogisticRegression''
                  (arg_optimize_final_model a) (arg_perform_feature_selection a) True
                  (arg_ml_for_analytics a) True
      in case estimator_names_of self2 (arg_model_names a) of
           Inl e \<Rightarrow> (Some e, self2)
         | Inr estimator_names \<Rightarrow>
     (let scoring = scoring_of self2;
          self3 = self2\<lparr>scorer_attr := Some scoring\<rparr>
      in perform_grid_search_by_model_names env self3 estimator_names ppl scoring X y'))))"

text \<open>\<^verbatim>\<open>train\<close>: the searches, then the selection.\<close>

definition train ::
  "('r, 'f, 'p) env \<Rightarrow> ('r, 'p) predictor \<Rightarrow> 'r list \<Rightarrow> ('r, 'f) train_args
     \<Rightarrow> error option \<times> ('r, 'p) predictor" where
  "train env self raw_training_data a =
     (case train_search env self raw_training_data a of
        (Some e, self4) \<Rightarrow> (Some e, self4)
      | (None, self4) \<Rightarrow> select_best env self4)"

subsection \<open>Notions the properties are stated with\<close>

text \<open>A float that compares \<^verbatim>\<open><= 0\<close>.\<close>

fun le_zero :: "pyfloat \<Rightarrow> bool" where
  "le_zero (Fin r) = (r \<le> 0)"
| "le_zero NegInf = True"
| "le_zero PosInf = False"
| "le_zero NaN = False"







subsection \<open>A small library, for running the class on concrete data\<close>

text \<open>A record of the training data is a dictionary from column names to values.\<close>

type_synonym row = "(string \<times> pyval) list"

text \<open>Modelled from the spec: \<^verbatim>\<open>utils.split_output\<close> is not among the sources. The spec
  has the training data "split into feature records and a parallel target sequence
  by removing the output column". A record without the output column is a
  \<^verbatim>\<open>KeyError\<close>.\<close>

fun split_rows :: "row list \<Rightarrow> string \<Rightarrow> error + row list \<times> pyval list" where
  "split_rows [] col = Inr ([], [])"
| "split_rows (r # rs) col =
     (case map_of r col of
        None \<Rightarrow> Inl KeyError
      | Some v \<Rightarrow>
          (case split_rows rs col of
             Inl e \<Rightarrow> Inl e
           | Inr (X, y) \<Rightarrow> Inr (filter (\<lambda>(k, u). k \<noteq> col) r # X, v # y)))"

text \<open>\<^verbatim>\<open>int\<close> and \<^verbatim>\<open>float\<close> on the values used below: numbers, and strings that are
  unsigned decimal literals. Any other string raises.\<close>

fun decimal :: "string \<Rightarrow> nat \<Rightarrow> nat option" where
  "decimal [] acc = Some acc"
| "decimal (c # cs) acc =
     (case map_of (zip ''0123456789'' [0, 1, 2, 3, 4, 5, 6, 7, 8, 9]) c of
        None \<Rightarrow> None
      | Some d \<Rightarrow> decimal cs (10 * acc + d))"

fun literal_int :: "pyval \<Rightarrow> int option" where
  "literal_int (PInt i) = Some i"
| "literal_int (PBool b) = Some (if b then 1 else 0)"
| "literal_int (PStr s) = (if s = [] then None else map_option int (decimal s 0))"
| "literal_int (PFloat (Fin r)) = Some (if r < 0 then \<lceil>r\<rceil> else \<lfloor>r\<rfloor>)"
| "literal_int v = None"

fun literal_float :: "pyval \<Rightarrow> pyfloat option" where
  "literal_float (PFloat f) = Some f"
| "literal_float (PInt i) = Some (Fin (real_of_int i))"
| "literal_float (PBool b) = Some (Fin (if b then 1 else 0))"
| "literal_float (PStr s) = (if s = [] then None else map_option (Fin \<circ> real) (decimal s 0))"
| "literal_float v = None"

text \<open>A grid search that fits nothing: the fitted pipeline is the name of the
  family searched, its cross-validation score is read from a table, and every
  holdout score is the same number.\<close>

definition table_fit ::
  "(string \<times> real) list \<Rightarrow> (string \<times> unit stage) list \<Rightarrow> grid \<Rightarrow> nat \<Rightarrow> scorer \<Rightarrow> row list
     \<Rightarrow> pyval list \<Rightarrow> error + string gs_result" where
  "table_fit table ppl params v sc X y =
     (case params ''final_model__model_name'' of
        Some [PName n] \<Rightarrow>
          (case map_of table n of
             Some c \<Rightarrow> Inr \<lparr> best_estimator = n, best_score = Fin c \<rparr>
           | None \<Rightarrow> Inl (LibraryError ''fit''))
      | _ \<Rightarrow> Inl (LibraryError ''param_grid''))"

definition table_env :: "(string \<times> real) list \<Rightarrow> real \<Rightarrow> (row, unit, string) env" where
  "table_env table holdout =
     \<lparr> py_int = literal_int,
       py_float = literal_float,
       split_output = split_rows,
       grid_search_fit = table_fit table,
       call_scorer = (\<lambda>sc ppl X y took_log. Inr (Fin holdout)),
       pipeline_score = (\<lambda>ppl X y. Inr (Fin holdout)),
       pipeline_predict = (\<lambda>ppl X. Inr (PSeq (map (\<lambda>r. PFloat (Fin 0)) X))),
       pipeline_predict_proba = (\<lambda>ppl X. Inl AttributeError),
       analytics_regression = (\<lambda>kind ppl. None),
       analytics_random_forest = (\<lambda>ppl. None),
       write_gs_results = (\<lambda>gs name. None),
       sort_inconsistent = (\<lambda>results. results) \<rparr>"

text \<open>The example of the spec: the column roles and the two training records.\<close>

definition example_columns :: "(string \<times> string) list" where
  "example_columns = [(''y'', ''output''), (''signup_date'', ''date''), (''age'', ''numeric'')]"

definition example_rows :: "row list" where
  "example_rows =
     [[(''y'', PStr ''10''), (''signup_date'', PStr ''2020-01-01''), (''age'', PStr ''34'')],
      [(''y'', PStr ''bad''), (''signup_date'', PStr ''2020-02-01''), (''age'', PStr ''41'')]]"

text \<open>The instances that \<^verbatim>\<open>Predictor('regressor', ...)\<close> and
  \<^verbatim>\<open>Predictor('classifier', ...)\<close> build for these columns, and a library whose two
  regressor families tie on the holdout score.\<close>

definition example_regressor :: "(row, string) predictor" where
  "example_regressor = init_fields ''regressor'' example_columns True"

definition example_classifier :: "(row, string) predictor" where
  "example_classifier = init_fields ''classifier'' example_columns True"

definition example_env :: "(row, unit, string) env" where
  "example_env = table_env [(''Ridge'', 9 / 10), (''XGBRegressor'', 19 / 20)] (1 / 2)"

text \<open>A call of \<^verbatim>\<open>train\<close> with holdout data and the other arguments at their defaults.\<close>

definition holdout_args :: "(row, unit) train_args" where
  "holdout_args =
     default_args\<lparr> arg_X_test := Some [[(''signup_date'', PStr ''2020-03-01''), (''age'', PStr ''29'')]],
                   arg_y_test := Some [PFloat (Fin 12)] \<rparr>"

section \<open>Properties\<close>

subsection \<open>The example instances, evaluated\<close>

lemma example_regressor_fields:
  "example_regressor =
     \<lparr> type_of_estimator = ''regressor'',
       column_descriptions = example_columns,
       verbose = True, trained_pipeline = None, scorer_attr = None,
       date_cols = [''signup_date''], took_log_of_y = False,
       output_column = Assigned ''y'', grid_search_pipelines = Assigned [],
       write_gs_param_results_to_file = Unset, gs_param_file_name = Unset,
       compute_power = Unset, ml_for_analytics = Unset, only_analytics = Unset,
       X_test = Unset, y_test = Unset, print_training_summary_to_viewer = Unset,
       take_log_of_y = Unset, grid_search_params = Unset \<rparr>"
  by (simp add: example_regressor_def init_fields_def example_columns_def lower_def
      lower_char_def Let_def)

lemma example_classifier_fields:
  "example_classifier =
     \<lparr> type_of_estimator = ''classifier'',
       column_descriptions = example_columns,
       verbose = True, trained_pipeline = None, scorer_attr = None,
       date_cols = [''signup_date''], took_log_of_y = False,
       output_column = Assigned ''y'', grid_search_pipelines = Assigned [],
       write_gs_param_results_to_file = Unset, gs_param_file_name = Unset,
       compute_power = Unset, ml_for_analytics = Unset, only_analytics = Unset,
       X_test = Unset, y_test = Unset, print_training_summary_to_viewer = Unset,
       take_log_of_y = Unset, grid_search_params = Unset \<rparr>"
  by (simp add: example_classifier_def init_fields_def example_columns_def lower_def
      lower_char_def Let_def)

lemma init_example: "init ''regressor'' example_columns True = Inr example_regressor"
  by (simp add: init_def example_regressor_def lower_def lower_char_def regressor_synonyms_def)

lemma example_split:
  "split_rows example_rows ''y'' =
     Inr ([[(''signup_date'', PStr ''2020-01-01''), (''age'', PStr ''34'')],
           [(''signup_date'', PStr ''2020-02-01''), (''age'', PStr ''41'')]],
          [PStr ''10'', PStr ''bad''])"
  by (simp add: example_rows_def)

lemma literal_float_examples:
  "literal_float (PStr ''10'') = Some (Fin 10)" "literal_float (PStr ''bad'') = None"
  by simp_all

lemma literal_int_examples:
  "literal_int (PStr ''10'') = Some 10" "literal_int (PStr ''bad'') = None"
  by simp_all

lemma example_env_fields:
  "py_int example_env = literal_int" "py_float example_env = literal_float"
  "split_output example_env = split_rows"
  by (simp_all add: example_env_def table_env_def)

lemma stored_example_regressor:
  "type_of_estimator (store_args example_regressor (default_args :: (row, unit) train_args)) = ''regressor''"
  "write_gs_param_results_to_file (store_args example_regressor (default_args :: (row, unit) train_args)) = Assigned True"
  "output_column (store_args example_regressor (default_args :: (row, unit) train_args)) = Assigned ''y''"
  by (simp_all add: store_args_def default_args_def example_regressor_fields Let_def)

lemma stored_example_classifier:
  "type_of_estimator (store_args example_classifier (default_args :: (row, unit) train_args)) = ''classifier''"
  "write_gs_param_results_to_file (store_args example_classifier (default_args :: (row, unit) train_args)) = Assigned True"
  "output_column (store_args example_classifier (default_args :: (row, unit) train_args)) = Assigned ''y''"
  by (simp_all add: store_args_def default_args_def example_classifier_fields Let_def)

lemmas example_eval =
  example_regressor_fields example_classifier_fields example_env_def example_columns_def
  example_rows_def holdout_args_def table_env_def table_fit_def default_args_def store_args_def
  prepare_for_training_def regressor_targets_def classifier_targets_def log_targets_def
  construct_pipeline_def estimator_names_of_def get_estimator_names_def scoring_of_def
  grid_search_family_def family_search_params_def construct_pipeline_search_params_def
  after_fit_def analytics_def holdout_results_def score_def select_best_def sorted_reverse_def
  train_search_def train_def enumerate_eq_zip Let_def



lemma example_train_default:
  "fst (train example_env example_regressor example_rows default_args) = None"
  "trained_pipeline (snd (train example_env example_regressor example_rows default_args))
     = Some ''XGBRegressor''"
  "took_log_of_y (snd (train example_env example_regressor example_rows default_args))"
  by (simp_all add: example_eval)

lemma example_classifier_init:
  "init ''classifier'' example_columns True = Inr example_classifier"
  by (simp add: init_def example_classifier_def lower_def lower_char_def
      regressor_synonyms_def classifier_synonyms_def)

lemma example_classifier_prepared:
  "fst (prepare_for_training example_env (store_args example_classifier a) example_rows)
     = Inr ([[(''signup_date'', PStr ''2020-01-01''), (''age'', PStr ''34'')],
             [(''signup_date'', PStr ''2020-02-01''), (''age'', PStr ''41'')]],
            [PStr ''10'', PStr ''bad''],
            [])"
  by (simp add: prepare_for_training_def store_args_def example_classifier_fields Let_def
      example_env_fields example_split classifier_targets_def)

lemma zero_target_prepared:
  "fst (prepare_for_training example_env
          (store_args example_regressor (default_args :: (row, unit) train_args))
          [[(''y'', PStr ''0''), (''age'', PStr ''34'')]])
     = Inr ([[(''age'', PStr ''34'')]], [PFloat (Fin 0)], [])"
  by (simp add: example_eval)

subsection \<open>Construction\<close>

lemma synonyms_disjoint: "set regressor_synonyms \<inter> set classifier_synonyms = {}"
  by (simp add: regressor_synonyms_def classifier_synonyms_def)

lemma type_of_init_fields: "type_of_estimator (init_fields kind cds verb) = kind"
  by (simp add: init_fields_def split: prod.splits)

text \<open>
  C6. For every estimator-kind string, construction has one of three outcomes and
  no other: the lowered string is one of the regressor synonyms and the instance
  is built with the type \<^verbatim>\<open>regressor\<close>; it is one of the classifier synonyms and the
  instance is built with the type \<^verbatim>\<open>classifier\<close>; it is neither and construction
  raises \<^verbatim>\<open>ValueError\<close>.
\<close>

theorem init_normalizes_or_fails:
  "(lower kind \<in> set regressor_synonyms \<longrightarrow>
      (\<exists>s. (init kind cds verb :: error + ('r, 'p) predictor) = Inr s
           \<and> type_of_estimator s = ''regressor''))
   \<and> (lower kind \<in> set classifier_synonyms \<longrightarrow>
      (\<exists>s. (init kind cds verb :: error + ('r, 'p) predictor) = Inr s
           \<and> type_of_estimator s = ''classifier''))
   \<and> (lower kind \<notin> set regressor_synonyms \<union> set classifier_synonyms \<longrightarrow>
      (init kind cds verb :: error + ('r, 'p) predictor) = Inl ValueError)"
  using synonyms_disjoint by (auto simp: init_def type_of_init_fields)

theorem init_normalizes_or_fails_witness:
  "lower ''Regression'' \<in> set regressor_synonyms
   \<and> (\<exists>s. (init ''Regression'' example_columns True :: error + (row, string) predictor) = Inr s
          \<and> type_of_estimator s = ''regressor'')
   \<and> lower ''LABELS'' \<in> set classifier_synonyms
   \<and> (\<exists>s. (init ''LABELS'' example_columns True :: error + (row, string) predictor) = Inr s
          \<and> type_of_estimator s = ''classifier'')
   \<and> lower ''clustering'' \<notin> set regressor_synonyms \<union> set classifier_synonyms
   \<and> (init ''clustering'' example_columns True :: error + (row, string) predictor)
       = Inl ValueError"
proof -
  have r: "lower ''Regression'' \<in> set regressor_synonyms"
    by (simp add: lower_def lower_char_def regressor_synonyms_def)
  have c: "lower ''LABELS'' \<in> set classifier_synonyms"
    by (simp add: lower_def lower_char_def classifier_synonyms_def)
  have n: "lower ''clustering'' \<notin> set regressor_synonyms \<union> set classifier_synonyms"
    by (simp add: lower_def lower_char_def regressor_synonyms_def classifier_synonyms_def)
  show ?thesis
    using r c n
      init_normalizes_or_fails
        [of "''Regression''" example_columns True, where ?'r = row and ?'p = string]
      init_normalizes_or_fails
        [of "''LABELS''" example_columns True, where ?'r = row and ?'p = string]
      init_normalizes_or_fails
        [of "''clustering''" example_columns True, where ?'r = row and ?'p = string]
    by blast
qed

subsection \<open>The pipeline builder\<close>

lemma names_of_pipeline:
  "map fst (construct_pipeline self f m ofm pfs imv mla sc) =
     (if f = None then [] else [''user_func''])
     @ (if date_cols self = [] then [] else [''date_feature_engineering''])
     @ [''basic_transform'']
     @ (if sc then [''scaler''] else [])
     @ [''dv'']
     @ (if pfs then [''feature_selection''] else [])
     @ [''final_model'']"
  by (simp add: construct_pipeline_def split: option.splits)

lemma scan_columns_dates:
  "snd (snd (scan_columns cds (cd, out, dates)))
     = dates @ map fst (filter (\<lambda>(k, r). lower r = ''date'') cds)"
  by (induction cds arbitrary: cd out dates) (auto simp: Let_def)

lemma date_cols_of_init:
  "init kind cds verb = Inr self \<Longrightarrow>
     date_cols self = map fst (filter (\<lambda>(k, r). lower r = ''date'') cds)"
  using scan_columns_dates [of cds "[]" Unset "[]"]
  by (auto simp: init_def init_fields_def split: if_splits prod.splits)

text \<open>
  C8. Whatever the switches and the user transform, the stage list holds the
  three mandatory stages \<^verbatim>\<open>basic_transform\<close>, \<^verbatim>\<open>dv\<close> and \<^verbatim>\<open>final_model\<close> once each and in
  this order, ends in the final estimator and names no stage twice; the user
  transform is the first stage when one is given and absent otherwise; the date
  stage is there exactly when \<^verbatim>\<open>date_cols\<close> is not empty, which for a constructed
  instance means that some column has the role \<^verbatim>\<open>date\<close>; the scaler and the feature
  selection are there exactly when their switch is on.
\<close>

theorem pipeline_stages:
  "filter (\<lambda>n. n \<in> {''basic_transform'', ''dv'', ''final_model''})
       (map fst (construct_pipeline self f m ofm pfs imv mla sc))
     = [''basic_transform'', ''dv'', ''final_model'']
   \<and> last (construct_pipeline self f m ofm pfs imv mla sc)
       = (''final_model'', FinalModelATC m ofm (type_of_estimator self) mla)
   \<and> distinct (map fst (construct_pipeline self f m ofm pfs imv mla sc))
   \<and> (\<forall>g. f = Some g \<longrightarrow>
         hd (construct_pipeline self f m ofm pfs imv mla sc) = (''user_func'', FunctionTransformer g))
   \<and> (f = None \<longrightarrow>
         ''user_func'' \<notin> set (map fst (construct_pipeline self f m ofm pfs imv mla sc)))
   \<and> (''date_feature_engineering'' \<in> set (map fst (construct_pipeline self f m ofm pfs imv mla sc))
        \<longleftrightarrow> date_cols self \<noteq> [])
   \<and> (init kind cds verb = Inr self \<longrightarrow>
        (''date_feature_engineering'' \<in> set (map fst (construct_pipeline self f m ofm pfs imv mla sc))
           \<longleftrightarrow> (\<exists>(k, r) \<in> set cds. lower r = ''date'')))
   \<and> (''scaler'' \<in> set (map fst (construct_pipeline self f m ofm pfs imv mla sc)) \<longleftrightarrow> sc)
   \<and> (''feature_selection'' \<in> set (map fst (construct_pipeline self f m ofm pfs imv mla sc))
        \<longleftrightarrow> pfs)"
proof -
  have 1: "filter (\<lambda>n. n \<in> {''basic_transform'', ''dv'', ''final_model''})
       (map fst (construct_pipeline self f m ofm pfs imv mla sc))
     = [''basic_transform'', ''dv'', ''final_model'']"
    by (simp add: names_of_pipeline)
  have 2: "last (construct_pipeline self f m ofm pfs imv mla sc)
       = (''final_model'', FinalModelATC m ofm (type_of_estimator self) mla)"
    by (simp add: construct_pipeline_def)
  have 3: "distinct (map fst (construct_pipeline self f m ofm pfs imv mla sc))"
    by (simp add: names_of_pipeline)
  have 4: "\<forall>g. f = Some g \<longrightarrow>
         hd (construct_pipeline self f m ofm pfs imv mla sc) = (''user_func'', FunctionTransformer g)"
    by (simp add: construct_pipeline_def)
  have 5: "f = None \<longrightarrow>
         ''user_func'' \<notin> set (map fst (construct_pipeline self f m ofm pfs imv mla sc))"
    by (simp add: names_of_pipeline)
  have 6: "''date_feature_engineering'' \<in> set (map fst (construct_pipeline self f m ofm pfs imv mla sc))
        \<longleftrightarrow> date_cols self \<noteq> []"
    by (simp add: names_of_pipeline)
  have 7: "init kind cds verb = Inr self \<longrightarrow>
        (''date_feature_engineering'' \<in> set (map fst (construct_pipeline self f m ofm pfs imv mla sc))
           \<longleftrightarrow> (\<exists>(k, r) \<in> set cds. lower r = ''date''))"
  proof
    assume i: "init kind cds verb = Inr self"
    have "date_cols self \<noteq> [] \<longleftrightarrow> (\<exists>(k, r) \<in> set cds. lower r = ''date'')"
      by (auto simp: date_cols_of_init [OF i] filter_empty_conv)
    with 6 show "''date_feature_engineering'' \<in> set (map fst (construct_pipeline self f m ofm pfs imv mla sc))
           \<longleftrightarrow> (\<exists>(k, r) \<in> set cds. lower r = ''date'')"
      by simp
  qed
  have 8: "''scaler'' \<in> set (map fst (construct_pipeline self f m ofm pfs imv mla sc)) \<longleftrightarrow> sc"
    by (simp add: names_of_pipeline)
  have 9: "''feature_selection'' \<in> set (map fst (construct_pipeline self f m ofm pfs imv mla sc))
        \<longleftrightarrow> pfs"
    by (simp add: names_of_pipeline)
  from 1 2 3 4 5 6 7 8 9 show ?thesis by blast
qed

theorem pipeline_stages_witness:
  "init ''regressor'' example_columns True = Inr example_regressor
   \<and> map fst (construct_pipeline example_regressor (Some ()) ''Ridge'' False False True True False)
       = [''user_func'', ''date_feature_engineering'', ''basic_transform'', ''dv'', ''final_model'']
   \<and> hd (construct_pipeline example_regressor (Some ()) ''Ridge'' False False True True False)
       = (''user_func'', FunctionTransformer ())
   \<and> last (construct_pipeline example_regressor (Some ()) ''Ridge'' False False True True False)
       = (''final_model'', FinalModelATC ''Ridge'' False ''regressor'' True)
   \<and> ''user_func'' \<notin> set (map fst (construct_pipeline example_regressor (None :: unit option)
        ''Ridge'' False True True True True))
   \<and> ''date_feature_engineering'' \<in> set (map fst (construct_pipeline example_regressor
        (None :: unit option) ''Ridge'' False True True True True))"
  using init_example
    pipeline_stages [of example_regressor "Some ()" "''Ridge''" False False True True False
      "''regressor''" example_columns True]
    pipeline_stages [of example_regressor "None :: unit option" "''Ridge''" False True True True True
      "''regressor''" example_columns True]
  by (simp add: names_of_pipeline example_regressor_fields)

subsection \<open>The search space\<close>

lemma csp_assigned:
  "compute_power self = Assigned p \<Longrightarrow>
   construct_pipeline_search_params self oe ofm mla pfs names =
     (case (if truthy names then Inr (the names) else get_estimator_names self) of
        Inl e \<Rightarrow> Inl e
      | Inr ns \<Rightarrow>
          Inr (\<lambda>k. if k = ''feature_selection__feature_selection_model'' \<and> p \<ge> 10
                      then Some (map PName [''SelectFromModel'', ''GenericUnivariateSelect'',
                                            ''KeepAll'', ''RFECV''])
                    else if k = ''final_model__model_name'' then Some (map PName ns)
                    else if k = ''scaler__truncate_large_values'' \<and> p \<ge> 3
                      then Some [PFlag True, PFlag False]
                    else if k = ''final_model__perform_grid_search_on_model'' \<and> (ofm \<or> p \<ge> 5)
                      then Some [PFlag True, PFlag False]
                    else None))"
  by (auto simp: construct_pipeline_search_params_def Let_def fun_eq_iff split: sum.splits)

lemma names_grow:
  "p \<le> p' \<Longrightarrow> get_estimator_names (self\<lparr>compute_power := Assigned p\<rparr>) = Inr ns \<Longrightarrow>
     \<exists>ns'. get_estimator_names (self\<lparr>compute_power := Assigned p'\<rparr>) = Inr ns' \<and> set ns \<subseteq> set ns'"
  by (auto simp: get_estimator_names_def split: if_splits)

text \<open>
  C5. In the mapping that \<^verbatim>\<open>_construct_pipeline_search_params\<close> returns, the axis
  \<^verbatim>\<open>scaler__truncate_large_values\<close> is present (over True and False) exactly when the
  compute power is at least 3, the axis \<^verbatim>\<open>final_model__perform_grid_search_on_model\<close>
  (over True and False) exactly when it is at least 5 or \<^verbatim>\<open>optimize_final_model\<close> was
  passed, and the axis \<^verbatim>\<open>feature_selection__feature_selection_model\<close> (over the four
  strategies) exactly when it is at least 10.
\<close>

theorem search_axes_by_compute_power:
  assumes "compute_power self = Assigned p"
    and "construct_pipeline_search_params self oe ofm mla pfs names = Inr g"
  shows "g ''scaler__truncate_large_values''
           = (if p \<ge> 3 then Some [PFlag True, PFlag False] else None)
       \<and> g ''final_model__perform_grid_search_on_model''
           = (if p \<ge> 5 \<or> ofm then Some [PFlag True, PFlag False] else None)
       \<and> g ''feature_selection__feature_selection_model''
           = (if p \<ge> 10
              then Some [PName ''SelectFromModel'', PName ''GenericUnivariateSelect'',
                         PName ''KeepAll'', PName ''RFECV'']
              else None)"
  using assms(2) unfolding csp_assigned [OF assms(1)]
  by (auto split: sum.splits)

theorem search_axes_by_compute_power_witness:
  "\<exists>g. construct_pipeline_search_params (example_regressor\<lparr>compute_power := Assigned 5\<rparr>)
          True False False True None = Inr g
     \<and> g ''scaler__truncate_large_values'' = Some [PFlag True, PFlag False]
     \<and> g ''final_model__perform_grid_search_on_model'' = Some [PFlag True, PFlag False]
     \<and> g ''feature_selection__feature_selection_model'' = None"
proof -
  let ?s = "example_regressor\<lparr>compute_power := Assigned 5\<rparr>"
  have cp: "compute_power ?s = Assigned 5" by simp
  have t: "type_of_estimator ?s = ''regressor''"
    by (simp add: example_regressor_fields)
  obtain g where g: "construct_pipeline_search_params ?s True False False True None = Inr g"
    by (simp add: csp_assigned [OF cp] get_estimator_names_def t cp)
  from search_axes_by_compute_power [OF cp g] g show ?thesis by simp
qed

text \<open>
  C4. With every other argument fixed, a mapping returned at compute power \<^verbatim>\<open>p\<close> has
  each of its axes, with all its candidate values, in the mapping returned at any
  \<^verbatim>\<open>p'\<close> from \<^verbatim>\<open>p\<close> upwards, which is returned too; a regressor always gets a mapping;
  and the grid of a per-family search has the axis \<^verbatim>\<open>final_model__model_name\<close> with
  exactly the family searched.
\<close>

theorem search_space_never_shrinks:
  "(p \<le> p' \<and> construct_pipeline_search_params (self\<lparr>compute_power := Assigned p\<rparr>)
                   oe ofm mla pfs names = Inr g \<longrightarrow>
      (\<exists>g'. construct_pipeline_search_params (self\<lparr>compute_power := Assigned p'\<rparr>)
               oe ofm mla pfs names = Inr g'
            \<and> dom g \<subseteq> dom g'
            \<and> (\<forall>k vs. g k = Some vs \<longrightarrow> (\<exists>vs'. g' k = Some vs' \<and> set vs \<subseteq> set vs'))))
   \<and> (type_of_estimator self = ''regressor'' \<longrightarrow>
        (\<exists>g0. construct_pipeline_search_params (self\<lparr>compute_power := Assigned p\<rparr>)
                 oe ofm mla pfs names = Inr g0))
   \<and> (family_search_params self model_name = Inr gf \<longrightarrow>
        gf ''final_model__model_name'' = Some [PName model_name])"
proof (intro conjI impI)
  assume a: "p \<le> p' \<and> construct_pipeline_search_params (self\<lparr>compute_power := Assigned p\<rparr>)
                   oe ofm mla pfs names = Inr g"
  let ?s = "self\<lparr>compute_power := Assigned p\<rparr>" and ?s' = "self\<lparr>compute_power := Assigned p'\<rparr>"
  have cp: "compute_power ?s = Assigned p" "compute_power ?s' = Assigned p'" by simp_all
  from a obtain ns where ns: "(if truthy names then Inr (the names) else get_estimator_names ?s) = Inr ns"
    unfolding csp_assigned [OF cp(1)] by (auto split: sum.splits)
  then obtain ns' where ns': "(if truthy names then Inr (the names) else get_estimator_names ?s') = Inr ns'"
      and sub: "set ns \<subseteq> set ns'"
    using names_grow [of p p' self ns] a by (auto split: if_splits)
  from a ns have g: "g = (\<lambda>k. if k = ''feature_selection__feature_selection_model'' \<and> p \<ge> 10
                      then Some (map PName [''SelectFromModel'', ''GenericUnivariateSelect'',
                                            ''KeepAll'', ''RFECV''])
                    else if k = ''final_model__model_name'' then Some (map PName ns)
                    else if k = ''scaler__truncate_large_values'' \<and> p \<ge> 3
                      then Some [PFlag True, PFlag False]
                    else if k = ''final_model__perform_grid_search_on_model'' \<and> (ofm \<or> p \<ge> 5)
                      then Some [PFlag True, PFlag False]
                    else None)"
    unfolding csp_assigned [OF cp(1)] by simp
  let ?g' = "(\<lambda>k. if k = ''feature_selection__feature_selection_model'' \<and> p' \<ge> 10
                      then Some (map PName [''SelectFromModel'', ''GenericUnivariateSelect'',
                                            ''KeepAll'', ''RFECV''])
                    else if k = ''final_model__model_name'' then Some (map PName ns')
                    else if k = ''scaler__truncate_large_values'' \<and> p' \<ge> 3
                      then Some [PFlag True, PFlag False]
                    else if k = ''final_model__perform_grid_search_on_model'' \<and> (ofm \<or> p' \<ge> 5)
                      then Some [PFlag True, PFlag False]
                    else None)"
  have g': "construct_pipeline_search_params ?s' oe ofm mla pfs names = Inr ?g'"
    unfolding csp_assigned [OF cp(2)] ns' by simp
  have vals: "\<forall>k vs. g k = Some vs \<longrightarrow> (\<exists>vs'. ?g' k = Some vs' \<and> set vs \<subseteq> set vs')"
    using a sub unfolding g by (auto split: if_splits)
  have "dom g \<subseteq> dom ?g'"
  proof
    fix k assume "k \<in> dom g"
    then obtain vs where "g k = Some vs" by blast
    with vals obtain vs' where "?g' k = Some vs'" by blast
    then show "k \<in> dom ?g'" by blast
  qed
  with g' vals show "\<exists>g'. construct_pipeline_search_params ?s' oe ofm mla pfs names = Inr g'
            \<and> dom g \<subseteq> dom g'
            \<and> (\<forall>k vs. g k = Some vs \<longrightarrow> (\<exists>vs'. g' k = Some vs' \<and> set vs \<subseteq> set vs'))"
    by blast
next
  assume "type_of_estimator self = ''regressor''"
  then show "\<exists>g0. construct_pipeline_search_params (self\<lparr>compute_power := Assigned p\<rparr>)
                 oe ofm mla pfs names = Inr g0"
    by (simp add: csp_assigned [of _ p] get_estimator_names_def)
next
  assume "family_search_params self model_name = Inr gf"
  then show "gf ''final_model__model_name'' = Some [PName model_name]"
    by (auto simp: family_search_params_def split: sum.splits)
qed

theorem search_space_never_shrinks_witness:
  "\<exists>g g' gf.
     construct_pipeline_search_params (example_regressor\<lparr>compute_power := Assigned 3\<rparr>)
        True False False True None = Inr g
     \<and> construct_pipeline_search_params (example_regressor\<lparr>compute_power := Assigned 10\<rparr>)
        True False False True None = Inr g'
     \<and> dom g \<subseteq> dom g'
     \<and> family_search_params (example_regressor\<lparr>compute_power := Assigned 3\<rparr>) ''Ridge'' = Inr gf
     \<and> gf ''final_model__model_name'' = Some [PName ''Ridge'']"
proof -
  let ?s = "example_regressor\<lparr>compute_power := Assigned 3\<rparr>"
  have t: "type_of_estimator example_regressor = ''regressor''"
    by (simp add: example_regressor_fields)
  have le: "(3::int) \<le> 10" by simp
  obtain g where
    g: "construct_pipeline_search_params ?s True False False True None = Inr g"
    using search_space_never_shrinks
      [where p = 3 and self = example_regressor and oe = True and ofm = False
         and mla = False and pfs = True and names = None,
       THEN conjunct2, THEN conjunct1, rule_format, OF t]
    by (elim exE)
  obtain gf where gf: "family_search_params ?s ''Ridge'' = Inr gf"
    using g by (simp add: family_search_params_def)
  obtain g' where g':
    "construct_pipeline_search_params (example_regressor\<lparr>compute_power := Assigned 10\<rparr>)
        True False False True None = Inr g'" "dom g \<subseteq> dom g'"
    using search_space_never_shrinks
      [where p = 3 and p' = 10 and self = example_regressor and oe = True and ofm = False
         and mla = False and pfs = True and names = None and g = g,
       THEN conjunct1, rule_format, OF conjI [OF le g]]
    by (elim exE conjE)
  have "gf ''final_model__model_name'' = Some [PName ''Ridge'']"
    using search_space_never_shrinks
      [where self = ?s and model_name = "''Ridge''" and gf = gf,
       THEN conjunct2, THEN conjunct2, rule_format, OF gf] .
  with g g' gf show ?thesis by (intro exI conjI)
qed

subsection \<open>Preparation of the targets\<close>

lemma enumerate_nth: "enumerate 0 xs = map (\<lambda>i. (i, xs ! i)) [0 ..< length xs]"
proof (induction xs rule: rev_induct)
  case Nil
  then show ?case by simp
next
  case (snoc x xs)
  have "map (\<lambda>i. (i, (xs @ [x]) ! i)) [0 ..< length xs] = map (\<lambda>i. (i, xs ! i)) [0 ..< length xs]"
    by (rule map_cong) (simp_all add: nth_append)
  with snoc show ?case by (simp add: enumerate_append_eq)
qed

lemma float_loop_acc:
  "float_loop f ps (itd, yf, bad) =
     (itd @ map fst (filter (\<lambda>(i, v). f v = None) ps),
      yf @ map (\<lambda>(i, v). the (f v)) (filter (\<lambda>(i, v). f v \<noteq> None) ps),
      bad @ map snd (filter (\<lambda>(i, v). f v = None) ps))"
  by (induction ps arbitrary: itd yf bad) (auto split: option.splits)

lemma float_loop_enumerate:
  "float_loop f (enumerate 0 y) ([], [], []) =
     (rejected_indices f y,
      map (\<lambda>i. the (f (y ! i))) (accepted_indices f y),
      map (\<lambda>i. y ! i) (rejected_indices f y))"
  by (simp add: float_loop_acc enumerate_nth filter_map comp_def rejected_indices_def
      accepted_indices_def)

lemma kept_rows:
  assumes "length X = length y"
  shows "map snd (filter (\<lambda>(idx, row). idx \<notin> set (rejected_indices f y)) (enumerate 0 X))
           = map (\<lambda>i. X ! i) (accepted_indices f y)"
proof -
  have "filter (\<lambda>i. i \<notin> set (rejected_indices f y)) [0 ..< length y]
          = filter (\<lambda>i. f (y ! i) \<noteq> None) [0 ..< length y]"
    by (rule filter_cong) (auto simp: rejected_indices_def)
  then show ?thesis
    using assms by (simp add: enumerate_nth filter_map comp_def accepted_indices_def)
qed

lemma indices_partition:
  "length (accepted_indices f y) + length (rejected_indices f y) = length y"
  using sum_length_filter_compl [of "\<lambda>i. f (y ! i) \<noteq> None" "[0 ..< length y]"]
  by (simp add: accepted_indices_def rejected_indices_def)

lemma rejected_nonempty:
  "(\<exists>v \<in> set y. f v = None) \<longleftrightarrow> rejected_indices f y \<noteq> []"
proof -
  have "(\<exists>v \<in> set y. f v = None) \<longleftrightarrow> (\<exists>i < length y. f (y ! i) = None)"
    by (metis in_set_conv_nth)
  also have "\<dots> \<longleftrightarrow> (\<exists>i \<in> set [0 ..< length y]. f (y ! i) = None)"
    by auto
  also have "\<dots> \<longleftrightarrow> rejected_indices f y \<noteq> []"
    by (simp add: rejected_indices_def filter_empty_conv)
  finally show ?thesis .
qed

lemma regressor_targets_rejecting:
  assumes "length X = length y" and "rejected_indices f y \<noteq> []"
  shows "regressor_targets f X y =
           (map (\<lambda>i. X ! i) (accepted_indices f y),
            map (\<lambda>i. PFloat (the (f (y ! i)))) (accepted_indices f y),
            [Text ''The y values given included some bad values that the machine learning algorithms will not be able to train on.'',
              Text ''The rows at these indices have been deleted because their y value could not be turned into a float:'',
              IndexList (rejected_indices f y),
              Text ''These were the bad values'',
              ValueList (map (\<lambda>i. y ! i) (rejected_indices f y))])"
  using assms by (simp add: regressor_targets_def float_loop_enumerate kept_rows comp_def)

text \<open>
  C2. For a regression instance whose split training data has a target that
  \<^verbatim>\<open>float\<close> rejects, preparation returns the feature records and the targets at
  exactly the positions whose target \<^verbatim>\<open>float\<close> accepts, in order, the targets as
  floats; it prints the rejected positions and the values found there; the two
  sequences returned have the same length, which is the length of the input less
  the number of rejected positions, hence smaller.
\<close>

theorem regression_drops_rejected_targets:
  assumes "type_of_estimator self \<noteq> ''classifier''"
    and "write_gs_param_results_to_file self = Assigned w"
    and "output_column self = Assigned col"
    and "split_output env raw col = Inr (X, y)"
    and "length X = length y"
    and "\<exists>v \<in> set y. py_float env v = None"
  shows "\<exists>X' y' out.
      fst (prepare_for_training env self raw) = Inr (X', y', out)
      \<and> X' = map (\<lambda>i. X ! i) (accepted_indices (py_float env) y)
      \<and> y' = map (\<lambda>i. PFloat (the (py_float env (y ! i)))) (accepted_indices (py_float env) y)
      \<and> IndexList (rejected_indices (py_float env) y) \<in> set out
      \<and> ValueList (map (\<lambda>i. y ! i) (rejected_indices (py_float env) y)) \<in> set out
      \<and> length X' = length y'
      \<and> length y' + length (rejected_indices (py_float env) y) = length y
      \<and> length y' < length y"
proof -
  have ne: "rejected_indices (py_float env) y \<noteq> []"
    using assms(6) by (simp add: rejected_nonempty)
  have "fst (prepare_for_training env self raw) = Inr (regressor_targets (py_float env) X y)"
    using assms(1-4) by (simp add: prepare_for_training_def Let_def)
  moreover have "length (accepted_indices (py_float env) y) < length y"
  proof -
    have "0 < length (rejected_indices (py_float env) y)"
      using ne by simp
    with indices_partition [of "py_float env" y] show ?thesis by linarith
  qed
  ultimately show ?thesis
    using indices_partition [of "py_float env" y]
    by (simp add: regressor_targets_rejecting [OF assms(5) ne])
qed

theorem regression_drops_rejected_targets_witness:
  "fst (prepare_for_training example_env
          (store_args example_regressor (default_args :: (row, unit) train_args)) example_rows)
     = Inr ([[(''signup_date'', PStr ''2020-01-01''), (''age'', PStr ''34'')]],
            [PFloat (Fin 10)],
            [Text ''The y values given included some bad values that the machine learning algorithms will not be able to train on.'',
             Text ''The rows at these indices have been deleted because their y value could not be turned into a float:'',
             IndexList [1],
             Text ''These were the bad values'',
             ValueList [PStr ''bad'']])
   \<and> rejected_indices literal_float [PStr ''10'', PStr ''bad''] = [1]
   \<and> accepted_indices literal_float [PStr ''10'', PStr ''bad''] = [0]"
proof -
  let ?s = "store_args example_regressor (default_args :: (row, unit) train_args)"
  let ?y = "[PStr ''10'', PStr ''bad'']"
  let ?X = "[[(''signup_date'', PStr ''2020-01-01''), (''age'', PStr ''34'')],
           [(''signup_date'', PStr ''2020-02-01''), (''age'', PStr ''41'')]]"
  have t: "type_of_estimator ?s \<noteq> ''classifier''"
    by (simp add: stored_example_regressor)
  have sp: "split_output example_env example_rows ''y'' = Inr (?X, ?y)"
    by (simp add: example_env_fields example_split)
  have len: "length ?X = length ?y" by simp
  have bad: "\<exists>v \<in> set ?y. py_float example_env v = None"
    by (simp add: example_env_fields)
  have upt2: "[0 ..< 2] = [0, Suc 0]"
    by (simp add: upt_rec)
  have r: "rejected_indices literal_float ?y = [1]"
    by (simp add: rejected_indices_def upt2)
  have a: "accepted_indices literal_float ?y = [0]"
    by (simp add: accepted_indices_def upt2)
  from regression_drops_rejected_targets
         [OF t stored_example_regressor(2) stored_example_regressor(3) sp len bad]
  obtain X' y' out where res:
    "fst (prepare_for_training example_env ?s example_rows) = Inr (X', y', out)"
    "X' = map (\<lambda>i. ?X ! i) (accepted_indices (py_float example_env) ?y)"
    "y' = map (\<lambda>i. PFloat (the (py_float example_env (?y ! i))))
            (accepted_indices (py_float example_env) ?y)"
    by blast
  have out: "out = [Text ''The y values given included some bad values that the machine learning algorithms will not be able to train on.'',
             Text ''The rows at these indices have been deleted because their y value could not be turned into a float:'',
             IndexList [1],
             Text ''These were the bad values'',
             ValueList [PStr ''bad'']]"
    using res(1) t sp r
    by (simp add: prepare_for_training_def stored_example_regressor Let_def
        regressor_targets_def float_loop_enumerate example_env_fields)
  from res out r a show ?thesis
    by (simp add: example_env_fields)
qed

text \<open>
  C7, as the claim states it: each label is coerced on its own and a label that
  \<^verbatim>\<open>int\<close> rejects is kept while the others are coerced. On the two records of the
  example the classifier branch keeps both labels as they were, \<^verbatim>\<open>'10'\<close> included.
\<close>

theorem per_record_labels_counterexample:
  "fst (prepare_for_training example_env
          (store_args example_classifier (default_args :: (row, unit) train_args)) example_rows)
     = Inr ([[(''signup_date'', PStr ''2020-01-01''), (''age'', PStr ''34'')],
             [(''signup_date'', PStr ''2020-02-01''), (''age'', PStr ''41'')]],
            [PStr ''10'', PStr ''bad''],
            [])
   \<and> per_record_labels (py_int example_env) [PStr ''10'', PStr ''bad'']
       = [PInt 10, PStr ''bad'']
   \<and> [PStr ''10'', PStr ''bad''] \<noteq> per_record_labels (py_int example_env) [PStr ''10'', PStr ''bad'']"
  by (simp add: prepare_for_training_def stored_example_classifier Let_def example_env_fields
      example_split classifier_targets_def per_record_labels_def)

lemma int_loop_acc:
  "int_loop f y acc =
     (if \<forall>v \<in> set y. f v \<noteq> None then Some (acc @ map (\<lambda>v. the (f v)) y) else None)"
  by (induction y arbitrary: acc) (auto split: option.splits)

text \<open>
  C7, amended. For a classification instance, preparation coerces the labels all
  together: when \<^verbatim>\<open>int\<close> accepts every label, each is replaced by its integer; when
  it rejects one, the whole target sequence is returned as it was. Either way
  nothing is raised, nothing is printed and every record is kept.
\<close>

theorem classifier_labels_all_or_nothing:
  assumes "type_of_estimator self = ''classifier''"
    and "write_gs_param_results_to_file self = Assigned w"
    and "output_column self = Assigned col"
    and "split_output env raw col = Inr (X, y)"
  shows "fst (prepare_for_training env self raw) =
           Inr (X,
                (if \<forall>v \<in> set y. py_int env v \<noteq> None
                 then map (\<lambda>v. PInt (the (py_int env v))) y else y),
                [])"
  using assms
  by (auto simp: prepare_for_training_def Let_def classifier_targets_def int_loop_acc comp_def)

theorem classifier_labels_all_or_nothing_witness:
  "fst (prepare_for_training example_env
          (store_args example_classifier (default_args :: (row, unit) train_args)) example_rows)
     = Inr ([[(''signup_date'', PStr ''2020-01-01''), (''age'', PStr ''34'')],
             [(''signup_date'', PStr ''2020-02-01''), (''age'', PStr ''41'')]],
            [PStr ''10'', PStr ''bad''],
            [])
   \<and> fst (prepare_for_training example_env
          (store_args example_classifier (default_args :: (row, unit) train_args))
          [[(''y'', PStr ''10''), (''age'', PStr ''34'')], [(''y'', PInt 7), (''age'', PStr ''41'')]])
     = Inr ([[(''age'', PStr ''34'')], [(''age'', PStr ''41'')]], [PInt 10, PInt 7], [])"
proof -
  let ?s = "store_args example_classifier (default_args :: (row, unit) train_args)"
  have sp: "split_output example_env example_rows ''y'' =
     Inr ([[(''signup_date'', PStr ''2020-01-01''), (''age'', PStr ''34'')],
           [(''signup_date'', PStr ''2020-02-01''), (''age'', PStr ''41'')]],
          [PStr ''10'', PStr ''bad''])"
    by (simp add: example_env_fields example_split)
  have sp2: "split_output example_env
       [[(''y'', PStr ''10''), (''age'', PStr ''34'')], [(''y'', PInt 7), (''age'', PStr ''41'')]] ''y'' =
     Inr ([[(''age'', PStr ''34'')], [(''age'', PStr ''41'')]], [PStr ''10'', PInt 7])"
    by (simp add: example_env_fields)
  from classifier_labels_all_or_nothing
         [OF stored_example_classifier(1) stored_example_classifier(2) stored_example_classifier(3) sp]
       classifier_labels_all_or_nothing
         [OF stored_example_classifier(1) stored_example_classifier(2) stored_example_classifier(3) sp2]
  show ?thesis
    by (simp add: example_env_fields)
qed

subsection \<open>What each phase of training leaves unchanged\<close>


lemma getattr_Inl: "getattr x = Inl e \<longleftrightarrow> x = Unset \<and> e = AttributeError"
  by (cases x) auto

lemma store_args_kept:
  "type_of_estimator (store_args self a) = type_of_estimator self"
  "trained_pipeline (store_args self a) = trained_pipeline self"
  "took_log_of_y (store_args self a) = took_log_of_y self"
  "grid_search_pipelines (store_args self a) = grid_search_pipelines self"
  "verbose (store_args self a) = verbose self"
  "date_cols (store_args self a) = date_cols self"
  "column_descriptions (store_args self a) = column_descriptions self"
  by (simp_all add: store_args_def Let_def)

lemma store_args_set:
  "compute_power (store_args self a) = Assigned (arg_compute_power a)"
  "X_test (store_args self a) = Assigned (arg_X_test a)"
  "y_test (store_args self a) = Assigned (arg_y_test a)"
  "write_gs_param_results_to_file (store_args self a)
     = Assigned (arg_write_gs_param_results_to_file a)"
  "print_training_summary_to_viewer (store_args self a)
     = Assigned (arg_print_training_summary_to_viewer a)"
  "take_log_of_y (store_args self a)
     = (if type_of_estimator self = ''regressor'' then Assigned (arg_take_log_of_y a)
        else take_log_of_y self)"
  by (simp_all add: store_args_def Let_def)

lemma prepare_frame:
  "prepare_for_training env self raw = (res, self1) \<Longrightarrow>
     self1 = self\<lparr>gs_param_file_name := gs_param_file_name self1\<rparr>"
  by (auto simp: prepare_for_training_def Let_def split: sum.splits if_splits prod.splits)

lemma prepare_regressor_floats:
  "prepare_for_training env self raw = (Inr (X, y, out), self1) \<Longrightarrow>
   type_of_estimator self \<noteq> ''classifier'' \<Longrightarrow> \<exists>fs. y = map PFloat fs"
  by (auto simp: prepare_for_training_def Let_def regressor_targets_def
      split: sum.splits if_splits prod.splits)

lemma prepare_ignores_fit:
  "prepare_for_training (env\<lparr>grid_search_fit := fit\<rparr>) self raw
     = prepare_for_training env self raw"
  by (auto simp: prepare_for_training_def Let_def split: sum.splits prod.splits)


lemma map_raise_log_floats:
  "\<exists>f \<in> set fs. le_zero f \<Longrightarrow> map_raise math_log (map PFloat fs) = Inl ValueError"
proof (induction fs)
  case Nil
  then show ?case by simp
next
  case (Cons f fs)
  show ?case
  proof (cases "le_zero f")
    case True
    then show ?thesis by (cases f) simp_all
  next
    case False
    with Cons.prems have "\<exists>f \<in> set fs. le_zero f" by simp
    with Cons.IH have "map_raise math_log (map PFloat fs) = Inl ValueError" .
    with False show ?thesis by (cases f) simp_all
  qed
qed

subsection \<open>The logarithm of the targets\<close>

text \<open>
  C10. For a regressor trained with \<^verbatim>\<open>take_log_of_y\<close> true: when preparation returns
  and one of the prepared targets is a float that is \<^verbatim>\<open><= 0\<close>, \<^verbatim>\<open>train\<close> raises
  \<^verbatim>\<open>ValueError\<close> (the math domain error of \<^verbatim>\<open>math.log\<close>) and leaves the instance as
  preparation left it: the retained pipeline and \<^verbatim>\<open>took_log_of_y\<close> are what they
  were before the call. No pipeline is fitted: the outcome is the same whatever
  the grid search would do.
\<close>

theorem log_of_nonpositive_target_aborts:
  assumes "type_of_estimator self = ''regressor''"
    and "arg_take_log_of_y a"
    and "prepare_for_training env (store_args self a) raw = (Inr (X, y, out), self1)"
    and "\<exists>f. PFloat f \<in> set y \<and> le_zero f"
  shows "train env self raw a = (Some ValueError, self1)
       \<and> trained_pipeline self1 = trained_pipeline self
       \<and> took_log_of_y self1 = took_log_of_y self
       \<and> train (env\<lparr>grid_search_fit := fit\<rparr>) self raw a = train env self raw a"
proof -
  have nc: "type_of_estimator (store_args self a) \<noteq> ''classifier''"
    using assms(1) by (simp add: store_args_kept)
  from prepare_regressor_floats [OF assms(3) nc] obtain fs where y: "y = map PFloat fs" ..
  with assms(4) have "\<exists>f \<in> set fs. le_zero f" by auto
  then have raise: "map_raise math_log y = Inl ValueError"
    unfolding y by (rule map_raise_log_floats)
  have fr: "self1 = (store_args self a)\<lparr>gs_param_file_name := gs_param_file_name self1\<rparr>"
    using assms(3) by (rule prepare_frame)
  have tl: "take_log_of_y self1 = Assigned True"
    using assms(1,2) by (subst fr) (simp add: store_args_set)
  have lt: "log_targets self1 y = (Inl ValueError, self1)"
    by (simp add: log_targets_def tl raise)
  have ts: "train_search env self raw a = (Some ValueError, self1)"
    by (simp add: train_search_def assms(3) lt)
  have ts': "train_search (env\<lparr>grid_search_fit := fit\<rparr>) self raw a = (Some ValueError, self1)"
    by (simp add: train_search_def prepare_ignores_fit assms(3) lt)
  have 1: "train env self raw a = (Some ValueError, self1)"
    by (simp add: train_def ts)
  have 2: "trained_pipeline self1 = trained_pipeline self"
    by (subst fr) (simp add: store_args_kept)
  have 3: "took_log_of_y self1 = took_log_of_y self"
    by (subst fr) (simp add: store_args_kept)
  have 4: "train (env\<lparr>grid_search_fit := fit\<rparr>) self raw a = train env self raw a"
    by (simp add: train_def ts ts')
  from 1 2 3 4 show ?thesis by simp
qed

theorem log_of_nonpositive_target_aborts_witness:
  "type_of_estimator example_regressor = ''regressor''
   \<and> arg_take_log_of_y (default_args :: (row, unit) train_args)
   \<and> fst (prepare_for_training example_env
          (store_args example_regressor (default_args :: (row, unit) train_args))
          [[(''y'', PStr ''0''), (''age'', PStr ''34'')]])
       = Inr ([[(''age'', PStr ''34'')]], [PFloat (Fin 0)], [])
   \<and> le_zero (Fin 0)
   \<and> fst (train example_env example_regressor [[(''y'', PStr ''0''), (''age'', PStr ''34'')]]
            default_args) = Some ValueError
   \<and> trained_pipeline (snd (train example_env example_regressor
        [[(''y'', PStr ''0''), (''age'', PStr ''34'')]] default_args)) = None
   \<and> took_log_of_y (snd (train example_env example_regressor
        [[(''y'', PStr ''0''), (''age'', PStr ''34'')]] default_args)) = False"
proof -
  let ?rows = "[[(''y'', PStr ''0''), (''age'', PStr ''34'')]]"
  let ?p = "prepare_for_training example_env
              (store_args example_regressor (default_args :: (row, unit) train_args)) ?rows"
  have t: "type_of_estimator example_regressor = ''regressor''"
    and tp: "trained_pipeline example_regressor = None"
    and tk: "took_log_of_y example_regressor = False"
    by (simp_all add: example_regressor_fields)
  have l: "arg_take_log_of_y (default_args :: (row, unit) train_args)"
    by (simp add: default_args_def)
  have p: "?p = (Inr ([[(''age'', PStr ''34'')]], [PFloat (Fin 0)], []), snd ?p)"
    using zero_target_prepared by (simp add: prod_eq_iff)
  have z: "\<exists>f. PFloat f \<in> set [PFloat (Fin 0)] \<and> le_zero f"
    by simp
  from log_of_nonpositive_target_aborts [OF t l p z] t l zero_target_prepared tp tk
  show ?thesis by simp
qed

subsection \<open>Training a classifier\<close>

lemma classifier_names:
  "type_of_estimator self = ''classifier'' \<Longrightarrow> get_estimator_names self = Inl NameError"
  by (simp add: get_estimator_names_def)

lemma classifier_family:
  "type_of_estimator self = ''classifier'' \<Longrightarrow> compute_power self = Assigned p \<Longrightarrow>
     family_search_params self m = Inl NameError"
  by (simp add: family_search_params_def construct_pipeline_search_params_def classifier_names
      Let_def)

lemma classifier_perform:
  "type_of_estimator self = ''classifier'' \<Longrightarrow> compute_power self = Assigned p \<Longrightarrow>
     names \<noteq> [] \<Longrightarrow>
     perform_grid_search_by_model_names env self names ppl sc X y = (Some NameError, self)"
  by (cases names) (simp_all add: grid_search_family_def classifier_family)

lemma truthy_the: "truthy xs \<Longrightarrow> the xs \<noteq> []"
  by (cases xs) simp_all

lemma classifier_search:
  assumes c: "type_of_estimator self = ''classifier''"
    and p: "prepare_for_training env (store_args self a) raw = (res, self1)"
  shows "train_search env self raw a =
    (case res of
       Inl e \<Rightarrow> (Some e, self1)
     | Inr (X, y, out) \<Rightarrow>
        (case take_log_of_y self of
           Unset \<Rightarrow> (Some AttributeError, self1)
         | Assigned b \<Rightarrow>
            (case (if b then map_raise math_log y else Inr y) of
               Inl e \<Rightarrow> (Some e, self1)
             | Inr y' \<Rightarrow>
                (Some NameError,
                 (if truthy (arg_model_names a)
                  then self1\<lparr>took_log_of_y := (b \<or> took_log_of_y self1),
                              scorer_attr := Some BrierScorer\<rparr>
                  else self1\<lparr>took_log_of_y := (b \<or> took_log_of_y self1)\<rparr>)))))"
proof -
  have fr: "self1 = (store_args self a)\<lparr>gs_param_file_name := gs_param_file_name self1\<rparr>"
    using p by (rule prepare_frame)
  have t1: "type_of_estimator self1 = ''classifier''"
    using c by (subst fr) (simp add: store_args_kept)
  have cp1: "compute_power self1 = Assigned (arg_compute_power a)"
    by (subst fr) (simp add: store_args_set)
  have tl1: "take_log_of_y self1 = take_log_of_y self"
    using c by (subst fr) (simp add: store_args_set)
  show ?thesis
  proof (cases res)
    case (Inl e)
    then show ?thesis by (simp add: train_search_def p)
  next
    case (Inr t)
    obtain X y out where t: "t = (X, y, out)" by (cases t)
    show ?thesis
    proof (cases "take_log_of_y self")
      case Unset
      then show ?thesis
        by (simp add: train_search_def p Inr t log_targets_def tl1)
    next
      case (Assigned b)
      show ?thesis
      proof (cases "if b then map_raise math_log y else Inr y")
        case (Inl e)
        then show ?thesis
          by (simp add: train_search_def p Inr t log_targets_def tl1 Assigned split: if_splits)
      next
        case r: (Inr y')
        let ?s2 = "self1\<lparr>took_log_of_y := (b \<or> took_log_of_y self1)\<rparr>"
        have lt: "log_targets self1 y = (Inr y', ?s2)"
          using r by (auto simp: log_targets_def tl1 Assigned split: if_splits sum.splits)
        have t2: "type_of_estimator ?s2 = ''classifier''" using t1 by simp
        show ?thesis
        proof (cases "truthy (arg_model_names a)")
          case False
          then show ?thesis
            by (simp add: train_search_def p Inr t lt Assigned r estimator_names_of_def
                classifier_names [OF t2] Let_def)
        next
          case True
          let ?s3 = "?s2\<lparr>scorer_attr := Some BrierScorer\<rparr>"
          have "perform_grid_search_by_model_names env ?s3 (the (arg_model_names a))
                  (construct_pipeline ?s2 (arg_user_input_func a) ''LogisticRegression''
                  (arg_optimize_final_model a) (arg_perform_feature_selection a) True
                  (arg_ml_for_analytics a) True) BrierScorer X y' = (Some NameError, ?s3)"
            by (rule classifier_perform [where p = "arg_compute_power a"])
               (simp_all add: t1 cp1 truthy_the [OF True])
          with True show ?thesis
            by (simp add: train_search_def p Inr t lt Assigned r estimator_names_of_def
                scoring_of_def t1 Let_def)
        qed
      qed
    qed
  qed
qed


lemma init_take_log_unset:
  "init kind cds verb = Inr self \<Longrightarrow> take_log_of_y self = Unset"
  by (auto simp: init_def init_fields_def split: if_splits prod.splits)

lemma classifier_train:
  assumes c: "type_of_estimator self = ''classifier''"
  shows "train env self raw a = train_search env self raw a"
    and "fst (train_search env self raw a) \<noteq> None"
proof -
  obtain res self1 where p: "prepare_for_training env (store_args self a) raw = (res, self1)"
    by (cases "prepare_for_training env (store_args self a) raw")
  show 2: "fst (train_search env self raw a) \<noteq> None"
    unfolding classifier_search [OF c p]
    by (simp split: sum.splits prod.splits attr.splits)
  then show "train env self raw a = train_search env self raw a"
    by (cases "train_search env self raw a") (auto simp: train_def)
qed

text \<open>
  C9, as the claim states it: every call of \<^verbatim>\<open>train\<close> on a classifier raises the
  unbound-name error. On the classifier constructed for the example columns the
  call raises \<^verbatim>\<open>AttributeError\<close>, with and without a list of model names: line 187
  reads \<^verbatim>\<open>self.take_log_of_y\<close>, which line 180 assigns for a regressor only.
\<close>

theorem name_error_counterexample:
  "init ''classifier'' example_columns True = Inr example_classifier
   \<and> fst (train example_env example_classifier example_rows default_args) = Some AttributeError
   \<and> fst (train example_env example_classifier example_rows
            (default_args\<lparr>arg_model_names := Some [''RidgeClassifier'']\<rparr>))
       = Some AttributeError
   \<and> AttributeError \<noteq> NameError"
proof -
  have c: "type_of_estimator example_classifier = ''classifier''"
    and u: "take_log_of_y example_classifier = Unset"
    by (simp_all add: example_classifier_fields)
  have "fst (train example_env example_classifier example_rows a) = Some AttributeError"
    for a :: "(row, unit) train_args"
  proof -
    obtain res self1 where
      p: "prepare_for_training example_env (store_args example_classifier a) example_rows
            = (res, self1)"
      by (cases "prepare_for_training example_env (store_args example_classifier a) example_rows")
    with example_classifier_prepared [of a] obtain t where "res = Inr t" by simp
    then show ?thesis
      unfolding classifier_train(1) [OF c] classifier_search [OF c p]
      by (simp add: u split: prod.splits)
  qed
  with example_classifier_init show ?thesis by simp
qed

text \<open>
  C9, amended. Every call of \<^verbatim>\<open>train\<close> on a classifier raises, before any grid search
  is fitted: the retained pipeline and the list of search results are what they
  were, the type and \<^verbatim>\<open>take_log_of_y\<close> too (so the next call raises as well), and the
  outcome does not depend on the grid search. A constructed instance has no
  \<^verbatim>\<open>take_log_of_y\<close>, and then the exception is \<^verbatim>\<open>AttributeError\<close> whenever preparation
  returns. The unbound name is reached only when \<^verbatim>\<open>take_log_of_y\<close> was assigned from
  outside the class and the logarithm, if taken, returns: then the exception is
  \<^verbatim>\<open>NameError\<close>.
\<close>

theorem classifier_train_raises:
  assumes c: "type_of_estimator self = ''classifier''"
  shows "fst (train env self raw a) \<noteq> None
       \<and> trained_pipeline (snd (train env self raw a)) = trained_pipeline self
       \<and> grid_search_pipelines (snd (train env self raw a)) = grid_search_pipelines self
       \<and> type_of_estimator (snd (train env self raw a)) = ''classifier''
       \<and> take_log_of_y (snd (train env self raw a)) = take_log_of_y self
       \<and> train (env\<lparr>grid_search_fit := fit\<rparr>) self raw a = train env self raw a
       \<and> (\<forall>kind cds verb. init kind cds verb = Inr self \<longrightarrow> take_log_of_y self = Unset)
       \<and> (take_log_of_y self = Unset \<longrightarrow>
            (\<forall>r. fst (prepare_for_training env (store_args self a) raw) = Inr r \<longrightarrow>
                 fst (train env self raw a) = Some AttributeError))
       \<and> (\<forall>b X y out.
            take_log_of_y self = Assigned b
            \<and> fst (prepare_for_training env (store_args self a) raw) = Inr (X, y, out)
            \<and> (b \<longrightarrow> (\<exists>y'. map_raise math_log y = Inr y')) \<longrightarrow>
            fst (train env self raw a) = Some NameError)"
proof -
  obtain res self1 where p: "prepare_for_training env (store_args self a) raw = (res, self1)"
    by (cases "prepare_for_training env (store_args self a) raw")
  have p': "prepare_for_training (env\<lparr>grid_search_fit := fit\<rparr>) (store_args self a) raw
              = (res, self1)"
    by (simp add: prepare_ignores_fit p)
  have fr: "self1 = (store_args self a)\<lparr>gs_param_file_name := gs_param_file_name self1\<rparr>"
    using p by (rule prepare_frame)
  have k: "trained_pipeline self1 = trained_pipeline self"
    "grid_search_pipelines self1 = grid_search_pipelines self"
    "type_of_estimator self1 = ''classifier''"
    "take_log_of_y self1 = take_log_of_y self"
    using c by (subst fr, simp add: store_args_kept store_args_set)+
  note tr = classifier_train(1) [OF c]
  note cs = classifier_search [OF c p]
  have 1: "fst (train env self raw a) \<noteq> None"
    using classifier_train(2) [OF c] by (simp add: tr)
  have 2: "trained_pipeline (snd (train env self raw a)) = trained_pipeline self"
    unfolding tr cs using k by (simp split: sum.splits prod.splits attr.splits)
  have 3: "grid_search_pipelines (snd (train env self raw a)) = grid_search_pipelines self"
    unfolding tr cs using k by (simp split: sum.splits prod.splits attr.splits)
  have 4: "type_of_estimator (snd (train env self raw a)) = ''classifier''"
    unfolding tr cs using k by (simp split: sum.splits prod.splits attr.splits)
  have 5: "take_log_of_y (snd (train env self raw a)) = take_log_of_y self"
    unfolding tr cs using k by (simp split: sum.splits prod.splits attr.splits)
  have 6: "train (env\<lparr>grid_search_fit := fit\<rparr>) self raw a = train env self raw a"
    unfolding tr cs classifier_search [OF c p'] ..
  have 7: "\<forall>kind cds verb. init kind cds verb = Inr self \<longrightarrow> take_log_of_y self = Unset"
    by (auto dest: init_take_log_unset)
  have 8: "take_log_of_y self = Unset \<longrightarrow>
            (\<forall>r. fst (prepare_for_training env (store_args self a) raw) = Inr r \<longrightarrow>
                 fst (train env self raw a) = Some AttributeError)"
    unfolding tr cs p by (auto split: prod.splits)
  have 9: "\<forall>b X y out.
            take_log_of_y self = Assigned b
            \<and> fst (prepare_for_training env (store_args self a) raw) = Inr (X, y, out)
            \<and> (b \<longrightarrow> (\<exists>y'. map_raise math_log y = Inr y')) \<longrightarrow>
            fst (train env self raw a) = Some NameError"
    unfolding tr cs p by (auto split: prod.splits)
  from 1 2 3 4 5 6 7 8 9 show ?thesis by blast
qed

theorem classifier_train_raises_witness:
  "type_of_estimator example_classifier = ''classifier''
   \<and> init ''classifier'' example_columns True = Inr example_classifier
   \<and> take_log_of_y example_classifier = Unset
   \<and> fst (train example_env example_classifier example_rows default_args) = Some AttributeError
   \<and> trained_pipeline (snd (train example_env example_classifier example_rows default_args))
       = None
   \<and> fst (train example_env (example_classifier\<lparr>take_log_of_y := Assigned False\<rparr>) example_rows
            default_args) = Some NameError"
proof -
  let ?c2 = "example_classifier\<lparr>take_log_of_y := Assigned False\<rparr>"
  have c: "type_of_estimator example_classifier = ''classifier''"
    and c2: "type_of_estimator ?c2 = ''classifier''"
    and tp: "trained_pipeline example_classifier = None"
    and tl2: "take_log_of_y ?c2 = Assigned False"
    by (simp_all add: example_classifier_fields)
  note w1 = classifier_train_raises [OF c, of example_env example_rows default_args]
  note w2 = classifier_train_raises [OF c2, of example_env example_rows default_args]
  have u: "take_log_of_y example_classifier = Unset"
    using w1 example_classifier_init by blast
  have p2: "fst (prepare_for_training example_env (store_args ?c2 default_args) example_rows)
     = Inr ([[(''signup_date'', PStr ''2020-01-01''), (''age'', PStr ''34'')],
             [(''signup_date'', PStr ''2020-02-01''), (''age'', PStr ''41'')]],
            [PStr ''10'', PStr ''bad''], [])"
    by (simp add: prepare_for_training_def store_args_def example_classifier_fields Let_def
        example_env_fields example_split classifier_targets_def default_args_def)
  have a: "fst (train example_env example_classifier example_rows default_args)
             = Some AttributeError"
    using w1 u example_classifier_prepared [of default_args] by blast
  have b: "trained_pipeline (snd (train example_env example_classifier example_rows default_args))
             = None"
    using w1 tp by simp
  have d: "fst (train example_env ?c2 example_rows default_args) = Some NameError"
    using w2 [THEN conjunct2, THEN conjunct2, THEN conjunct2, THEN conjunct2, THEN conjunct2,
              THEN conjunct2, THEN conjunct2, THEN conjunct2, rule_format,
              of False _ "[PStr ''10'', PStr ''bad'']" "[]"]
      tl2 p2
    by simp
  from c example_classifier_init u a b d show ?thesis by simp
qed

subsection \<open>The searches and the selection\<close>





















subsection \<open>Prediction after a logarithm of the targets\<close>

lemma predict_raises_on_float:
  assumes "trained_pipeline self = Some ppl" and "took_log_of_y self"
    and "pipeline_predict env ppl data = Inr (PSeq (PFloat f # rest))"
  shows "predict env self data = Inl TypeError"
  using assms by (simp add: predict_def)

text \<open>
  C3. The claim has \<^verbatim>\<open>predict\<close> return the exponential of each raw prediction when
  the targets were logged. The loop of \<^verbatim>\<open>predict\<close> unpacks each prediction into
  \<^verbatim>\<open>idx, val\<close>, so on the predictions of a regression pipeline, a sequence of floats,
  it raises \<^verbatim>\<open>TypeError\<close> at the first one: after the example is trained with the
  default arguments, \<^verbatim>\<open>predict\<close> on one record raises where the claim has it return
  the exponential of 0.
\<close>

theorem predict_after_log_training_raises:
  "fst (train example_env example_regressor example_rows default_args) = None
   \<and> took_log_of_y (snd (train example_env example_regressor example_rows default_args))
   \<and> trained_pipeline (snd (train example_env example_regressor example_rows default_args))
       = Some ''XGBRegressor''
   \<and> pipeline_predict example_env ''XGBRegressor'' [[(''age'', PStr ''29'')]]
       = Inr (PSeq [PFloat (Fin 0)])
   \<and> predict example_env (snd (train example_env example_regressor example_rows default_args))
        [[(''age'', PStr ''29'')]] = Inl TypeError
   \<and> map_raise math_exp [PFloat (Fin 0)] = Inr [PFloat (Fin 1)]"
proof -
  have pp: "pipeline_predict example_env ''XGBRegressor'' [[(''age'', PStr ''29'')]]
       = Inr (PSeq [PFloat (Fin 0)])"
    by (simp add: example_env_def table_env_def)
  from predict_raises_on_float [OF example_train_default(2) example_train_default(3) pp]
    example_train_default pp
  show ?thesis by simp
qed

end
